theory Spec2Isabelle
  imports Main
begin

section \<open>Values shared by the REST routes and the socket server\<close>

type_synonym ident = string

text \<open>
  JSON values as the handlers build them for \<^verbatim>\<open>res.json\<close> and \<^verbatim>\<open>emit\<close>.
  \<open>JTime\<close> is a \<^verbatim>\<open>Date\<close> (milliseconds since the epoch).
\<close>

datatype jval =
    JStr string
  | JNum int
  | JBool bool
  | JTime nat
  | JUndefined
  | JNull
  | JObj "(string \<times> jval) list"
  | JArr "jval list"

text \<open>JavaScript truthiness of an optional string field: \<^verbatim>\<open>undefined\<close> and \<^verbatim>\<open>''\<close> are falsy.\<close>

definition truthy :: "string option \<Rightarrow> bool" where
  "truthy v = (case v of None \<Rightarrow> False | Some s \<Rightarrow> s \<noteq> [])"

text \<open>\<^verbatim>\<open>a || b\<close> on optional strings: the first operand when it is truthy, the second otherwise.\<close>

definition js_or :: "string option \<Rightarrow> string option \<Rightarrow> string option" where
  "js_or a b = (if truthy a then a else b)"

text \<open>Decimal rendering of a number inside a template literal.\<close>

fun digits :: "nat \<Rightarrow> string" where
  "digits n = (if n < 10 then [''0123456789'' ! n]
               else digits (n div 10) @ [''0123456789'' ! (n mod 10)])"

declare digits.simps [simp del]

definition show_int :: "int \<Rightarrow> string" where
  "show_int i = (if i < 0 then ''-'' @ digits (nat (- i)) else digits (nat i))"

section \<open>The durable store\<close>

record user_row =
  u_id :: ident
  u_email :: string
  u_username :: string
  u_password_hash :: string
  u_first_name :: string
  u_last_name :: string
  u_phone :: "string option"
  u_role :: string
  u_is_active :: bool
  u_locked_until :: "nat option"

record household_row =
  h_id :: ident
  h_name :: string
  h_description :: string
  h_owner_id :: ident
  h_is_active :: bool

record member_row =
  m_id :: ident
  m_household_id :: ident
  m_user_id :: ident
  m_role :: string
  m_permissions :: string
  m_can_invite :: bool
  m_joined_at :: nat
  m_is_active :: bool
  m_updated_at :: "nat option"

record invitation_row =
  i_id :: ident
  i_household_id :: ident
  i_email :: string
  i_role :: string
  i_permissions :: string
  i_invited_by :: ident
  i_token :: string
  i_status :: string
  i_expires_at :: nat
  i_created_at :: nat
  i_accepted_at :: "nat option"

record chat_row =
  c_id :: ident
  c_room_type :: string
  c_room_id :: string
  c_user_id :: ident
  c_message :: string
  c_parent_message_id :: "string option"
  c_created_at :: nat

record prefs_row =
  p_user_id :: ident
  p_push_notifications_enabled :: bool

text \<open>Each table is the list of its rows, in the order the store returns them.\<close>

record db =
  users :: "user_row list"
  households :: "household_row list"
  household_members :: "member_row list"
  household_invitations :: "invitation_row list"
  chat_messages :: "chat_row list"
  user_preferences :: "prefs_row list"

text \<open>
  The awaited calls of the handlers. Each of them can reject (a store error, a mail
  error, an undefined binding), which sends the handler to its \<^verbatim>\<open>catch\<close> block.
\<close>

datatype call =
    CapCount | MemberCheck
  | RegFindUser | RegHash | RegInsertUser | RegInsertHousehold | RegInsertMember | RegSendEmail
  | InvFindUser | InvFindMember | InvReactivate | InvJwtSign | InvInsert | InvFindHousehold
  | InvSendEmail
  | AccFindInvitation | AccCount | AccInsertMember | AccUpdateInvitation
  | ChatInsert | ChatHistory | ChatOffline

text \<open>
  What a handler takes from its surroundings: the clock (\<^verbatim>\<open>new Date()\<close>), the parsed
  \<^verbatim>\<open>process.env.MAX_USERS\<close> (\<open>None\<close> when \<^verbatim>\<open>parseInt\<close> gives \<^verbatim>\<open>NaN\<close>), which awaited
  calls reject, the identifiers generated at a call (\<^verbatim>\<open>uuidv4()\<close> or a column default),
  and the string functions that the program does not define itself: \<^verbatim>\<open>bcrypt.hash\<close>,
  \<^verbatim>\<open>jwt.sign\<close>, and the platform's \<^verbatim>\<open>String.prototype.toLowerCase\<close> and
  \<^verbatim>\<open>String.prototype.trim\<close>. The last two follow the Unicode tables (every cased
  letter; every white space character and line terminator, U+00A0 and U+FEFF among
  them); they are taken as given, and nothing below depends on what they return.
\<close>

record env =
  now :: nat
  MAX_USERS :: "int option"
  throws :: "call \<Rightarrow> bool"
  fresh :: "call \<Rightarrow> ident"
  bcrypt_hash :: "string \<Rightarrow> string"
  jwt_sign :: "string list \<Rightarrow> string"
  toLowerCase :: "string \<Rightarrow> string"
  trim :: "string \<Rightarrow> string"

section \<open>Requests, responses and side effects\<close>

text \<open>What passport's JWT strategy hands to \<^verbatim>\<open>authenticateJWT\<close>.\<close>

datatype passport = PassportError | PassportNoUser | PassportUser user_row

text \<open>
  \<^verbatim>\<open>req.user\<close> is the users row passport attached, together with the
  \<^verbatim>\<open>householdId\<close> property that \<^verbatim>\<open>checkUserCap\<close> reads from it.
\<close>

record req_user =
  ru_row :: user_row
  ru_householdId :: "string option"

record request =
  body :: "string \<Rightarrow> string option"
  params :: "string \<Rightarrow> string option"
  bearer :: passport
  user :: "req_user option"
  userCount :: int
  maxUsers :: int
  householdMembership :: "member_row option"

record response =
  status :: nat
  json :: "(string \<times> jval) list"

definition respond :: "nat \<Rightarrow> (string \<times> jval) list \<Rightarrow> response" where
  "respond s b = \<lparr>status = s, json = b\<rparr>"

definition error_response :: "nat \<Rightarrow> string \<Rightarrow> response" where
  "error_response s msg = respond s [(''error'', JStr msg)]"

text \<open>Calls to the mail service and to \<^verbatim>\<open>sendUserLimitAlerts\<close>, in the order they are made.\<close>

datatype effect =
    SendEmail string string
  | UserLimitAlert ident int int

text \<open>A middleware either answers the request or passes it on.\<close>

datatype middleware = Answer response | Next request

section \<open>middleware/userCap.js\<close>

definition max_users :: "env \<Rightarrow> int" where
  "max_users e = (case MAX_USERS e of None \<Rightarrow> 5 | Some n \<Rightarrow> if n = 0 then 5 else n)"

definition active_members :: "db \<Rightarrow> ident \<Rightarrow> member_row list" where
  "active_members d hid =
     filter (\<lambda>m. m_household_id m = hid \<and> m_is_active m) (household_members d)"

definition active_count :: "db \<Rightarrow> ident \<Rightarrow> int" where
  "active_count d hid = int (length (active_members d hid))"

definition cap_household :: "request \<Rightarrow> string option" where
  "cap_household r =
     js_or (js_or (body r ''householdId'') (params r ''householdId''))
           (case user r of None \<Rightarrow> None | Some u \<Rightarrow> ru_householdId u)"

definition cap_rejection :: "int \<Rightarrow> int \<Rightarrow> response" where
  "cap_rejection cur mx = respond 403
     [(''error'', JStr ''User limit reached''),
      (''message'', JStr (''Maximum '' @ show_int mx
          @ '' users allowed per household. Please contact an admin to remove inactive users.'')),
      (''currentUsers'', JNum cur),
      (''maxUsers'', JNum mx)]"

definition checkUserCap :: "env \<Rightarrow> db \<Rightarrow> request \<Rightarrow> middleware" where
  "checkUserCap e d r =
     (let householdId = cap_household r in
      if \<not> truthy householdId then Answer (error_response 400 ''Household ID is required'')
      else if throws e CapCount then Answer (error_response 500 ''Failed to check user limit'')
      else
        let currentUserCount = active_count d (the householdId);
            mx = max_users e in
        if currentUserCount \<ge> mx then Answer (cap_rejection currentUserCount mx)
        else Next (r\<lparr>userCount := currentUserCount, maxUsers := mx\<rparr>))"

record capacity =
  canAdd :: bool
  currentUsers :: int
  capMaxUsers :: int
  remainingSlots :: int

text \<open>\<open>None\<close> is the rethrown store error.\<close>

definition canAddUserToHousehold :: "env \<Rightarrow> call \<Rightarrow> db \<Rightarrow> ident \<Rightarrow> capacity option" where
  "canAddUserToHousehold e c d hid =
     (if throws e c then None
      else
        let currentUserCount = active_count d hid;
            mx = max_users e in
        Some \<lparr>canAdd = currentUserCount < mx, currentUsers = currentUserCount,
              capMaxUsers = mx, remainingSlots = mx - currentUserCount\<rparr>)"

section \<open>routes/auth.js: registration\<close>

definition reg_existing :: "env \<Rightarrow> db \<Rightarrow> string \<Rightarrow> string \<Rightarrow> user_row option" where
  "reg_existing e d email username =
     List.find (\<lambda>u. u_email u = toLowerCase e email \<or> u_username u = username) (users d)"

definition new_user :: "env \<Rightarrow> request \<Rightarrow> user_row" where
  "new_user e r =
     \<lparr>u_id = fresh e RegInsertUser,
      u_email = toLowerCase e (the (body r ''email'')),
      u_username = the (body r ''username''),
      u_password_hash = bcrypt_hash e (the (body r ''password'')),
      u_first_name = the (body r ''firstName''),
      u_last_name = the (body r ''lastName''),
      u_phone = body r ''phone'',
      u_role = ''user'',
      u_is_active = True,
      u_locked_until = None\<rparr>"

definition new_household :: "env \<Rightarrow> request \<Rightarrow> household_row" where
  "new_household e r =
     \<lparr>h_id = fresh e RegInsertHousehold,
      h_name = the (body r ''firstName'') @ [CHR 0x27] @ ''s Household'',
      h_description = ''Default household'',
      h_owner_id = fresh e RegInsertUser,
      h_is_active = True\<rparr>"

text \<open>
  The handler gives the membership row no \<^verbatim>\<open>id\<close>, \<^verbatim>\<open>joined_at\<close> or \<^verbatim>\<open>is_active\<close>;
  the columns take their defaults (a generated id, the insertion time, active).
\<close>

definition owner_member :: "env \<Rightarrow> member_row" where
  "owner_member e =
     \<lparr>m_id = fresh e RegInsertMember,
      m_household_id = fresh e RegInsertHousehold,
      m_user_id = fresh e RegInsertUser,
      m_role = ''admin'',
      m_permissions = ''full'',
      m_can_invite = True,
      m_joined_at = now e,
      m_is_active = True,
      m_updated_at = None\<rparr>"

definition registered_body :: "user_row \<Rightarrow> household_row \<Rightarrow> (string \<times> jval) list" where
  "registered_body u h =
     [(''message'',
         JStr ''User registered successfully. Please check your email for verification.''),
      (''user'', JObj
         [(''id'', JStr (u_id u)), (''email'', JStr (u_email u)),
          (''username'', JStr (u_username u)), (''firstName'', JStr (u_first_name u)),
          (''lastName'', JStr (u_last_name u)), (''role'', JStr (u_role u)),
          (''household'', JObj [(''id'', JStr (h_id h)), (''name'', JStr (h_name h))])])]"

definition register_handler :: "env \<Rightarrow> db \<Rightarrow> request \<Rightarrow> response \<times> db \<times> effect list" where
  "register_handler e d r =
     (let failed = error_response 500 ''Registration failed'' in
      if \<not> truthy (body r ''email'') \<or> \<not> truthy (body r ''username'')
         \<or> \<not> truthy (body r ''password'') \<or> \<not> truthy (body r ''firstName'')
         \<or> \<not> truthy (body r ''lastName'')
      then (error_response 400 ''All required fields must be provided'', d, [])
      else if length (the (body r ''password'')) < 8
      then (error_response 400 ''Password must be at least 8 characters long'', d, [])
      else if throws e RegFindUser then (failed, d, [])
      else if reg_existing e d (the (body r ''email'')) (the (body r ''username'')) \<noteq> None
      then (error_response 400 ''User already exists with this email or username'', d, [])
      else if throws e RegHash \<or> throws e RegInsertUser then (failed, d, [])
      else
        let newUser = new_user e r;
            d1 = d\<lparr>users := users d @ [newUser]\<rparr> in
        if throws e RegInsertHousehold then (failed, d1, [])
        else
          let household = new_household e r;
              d2 = d1\<lparr>households := households d1 @ [household]\<rparr> in
          if throws e RegInsertMember then (failed, d2, [])
          else
            let d3 = d2\<lparr>household_members := household_members d2 @ [owner_member e]\<rparr> in
            if throws e RegSendEmail then (failed, d3, [])
            else
              let mail = [SendEmail (u_email newUser) ''welcome''];
                  alerts = (if userCount r \<ge> maxUsers r - 1
                            then [UserLimitAlert (h_id household) (userCount r + 1) (maxUsers r)]
                            else []) in
              (respond 201 (registered_body newUser household), d3, mail @ alerts))"

text \<open>\<^verbatim>\<open>router.post('/register', checkUserCap, handler)\<close>\<close>

definition register_route :: "env \<Rightarrow> db \<Rightarrow> request \<Rightarrow> response \<times> db \<times> effect list" where
  "register_route e d r =
     (case checkUserCap e d r of
        Answer res \<Rightarrow> (res, d, [])
      | Next r' \<Rightarrow> register_handler e d r')"

section \<open>middleware/auth.js\<close>

definition authenticateJWT :: "env \<Rightarrow> request \<Rightarrow> middleware" where
  "authenticateJWT e r =
     (case bearer r of
        PassportError \<Rightarrow> Answer (error_response 500 ''Authentication error'')
      | PassportNoUser \<Rightarrow>
          Answer (error_response 401 ''Unauthorized - Invalid or expired token'')
      | PassportUser u \<Rightarrow>
          if \<not> u_is_active u then Answer (error_response 401 ''Account is deactivated'')
          else if (case u_locked_until u of None \<Rightarrow> False | Some t \<Rightarrow> now e < t)
          then Answer (error_response 401 ''Account is temporarily locked'')
          else Next (r\<lparr>user := Some \<lparr>ru_row = u, ru_householdId = None\<rparr>\<rparr>))"

definition authorize :: "string list \<Rightarrow> request \<Rightarrow> middleware" where
  "authorize roles r =
     (case user r of
        None \<Rightarrow> Answer (error_response 401 ''Unauthorized'')
      | Some u \<Rightarrow>
          if roles = [] then Next r
          else if u_role (ru_row u) \<in> set roles then Next r
          else Answer (error_response 403 ''Insufficient permissions''))"

definition find_membership :: "db \<Rightarrow> ident \<Rightarrow> ident \<Rightarrow> member_row option" where
  "find_membership d uid hid =
     List.find (\<lambda>m. m_user_id m = uid \<and> m_household_id m = hid \<and> m_is_active m)
       (household_members d)"

text \<open>Reading \<^verbatim>\<open>req.user.id\<close> without a user throws inside the \<^verbatim>\<open>try\<close>: status 500.\<close>

definition checkHouseholdMembership :: "string \<Rightarrow> env \<Rightarrow> db \<Rightarrow> request \<Rightarrow> middleware" where
  "checkHouseholdMembership requiredPermission e d r =
     (case user r of
        None \<Rightarrow> Answer (error_response 500 ''Internal server error'')
      | Some u \<Rightarrow>
          let householdId = js_or (params r ''householdId'') (body r ''householdId'') in
          if \<not> truthy householdId then Answer (error_response 400 ''Household ID is required'')
          else if throws e MemberCheck then Answer (error_response 500 ''Internal server error'')
          else
            (case find_membership d (u_id (ru_row u)) (the householdId) of
               None \<Rightarrow> Answer (error_response 403 ''Not a member of this household'')
             | Some membership \<Rightarrow>
                 if requiredPermission = ''write'' \<and> m_permissions membership = ''read_only''
                 then Answer (error_response 403 ''Read-only access for this household'')
                 else if requiredPermission = ''full'' \<and> m_role membership \<noteq> ''admin''
                 then Answer (error_response 403 ''Admin access required'')
                 else Next (r\<lparr>householdMembership := Some membership\<rparr>)))"

text \<open>Express runs the next middleware only when the one before called \<^verbatim>\<open>next()\<close>.\<close>

definition and_then :: "middleware \<Rightarrow> (request \<Rightarrow> middleware) \<Rightarrow> middleware" where
  "and_then m f = (case m of Answer res \<Rightarrow> Answer res | Next r \<Rightarrow> f r)"

section \<open>routes/households.js: invitations\<close>

text \<open>Express binds the \<^verbatim>\<open>:householdId\<close> segment of the path into \<^verbatim>\<open>req.params\<close>.\<close>

definition bind_param :: "string \<Rightarrow> string \<Rightarrow> request \<Rightarrow> request" where
  "bind_param k v r = r\<lparr>params := (params r)(k \<mapsto> v)\<rparr>"

definition invite_gate :: "env \<Rightarrow> db \<Rightarrow> request \<Rightarrow> middleware" where
  "invite_gate e d r =
     and_then (and_then (and_then (authenticateJWT e r) (authorize [''admin'']))
                 (checkHouseholdMembership ''full'' e d))
       (checkUserCap e d)"

definition inv_find_user :: "env \<Rightarrow> db \<Rightarrow> string \<Rightarrow> user_row option" where
  "inv_find_user e d email = List.find (\<lambda>u. u_email u = toLowerCase e email) (users d)"

definition inv_find_member :: "db \<Rightarrow> ident \<Rightarrow> ident \<Rightarrow> member_row option" where
  "inv_find_member d hid uid =
     List.find (\<lambda>m. m_household_id m = hid \<and> m_user_id m = uid) (household_members d)"

definition reactivate :: "env \<Rightarrow> ident \<Rightarrow> string \<Rightarrow> string \<Rightarrow> member_row \<Rightarrow> member_row" where
  "reactivate e mid role permissions m =
     (if m_id m = mid
      then m\<lparr>m_is_active := True, m_role := role, m_permissions := permissions,
             m_updated_at := Some (now e)\<rparr>
      else m)"

definition opt_str :: "string option \<Rightarrow> jval" where
  "opt_str v = (case v of None \<Rightarrow> JUndefined | Some s \<Rightarrow> JStr s)"

text \<open>A column that is \<^verbatim>\<open>NULL\<close> reads as \<^verbatim>\<open>null\<close>.\<close>

definition col_str :: "string option \<Rightarrow> jval" where
  "col_str v = (case v of None \<Rightarrow> JNull | Some s \<Rightarrow> JStr s)"

definition col_time :: "nat option \<Rightarrow> jval" where
  "col_time v = (case v of None \<Rightarrow> JNull | Some t \<Rightarrow> JTime t)"

definition user_json :: "user_row \<Rightarrow> jval" where
  "user_json u = JObj
     [(''id'', JStr (u_id u)), (''email'', JStr (u_email u)),
      (''username'', JStr (u_username u)), (''password_hash'', JStr (u_password_hash u)),
      (''first_name'', JStr (u_first_name u)), (''last_name'', JStr (u_last_name u)),
      (''phone'', col_str (u_phone u)), (''role'', JStr (u_role u)),
      (''is_active'', JBool (u_is_active u)), (''locked_until'', col_time (u_locked_until u))]"

text \<open>Destructuring with a default: \<^verbatim>\<open>role = 'member'\<close> applies when the field is undefined.\<close>

definition with_default :: "string \<Rightarrow> string option \<Rightarrow> string" where
  "with_default dflt v = (case v of None \<Rightarrow> dflt | Some s \<Rightarrow> s)"

definition new_invitation :: "env \<Rightarrow> request \<Rightarrow> ident \<Rightarrow> invitation_row" where
  "new_invitation e r householdId =
     (let email = the (body r ''email'');
          role = with_default ''member'' (body r ''role'');
          permissions = with_default ''read_write'' (body r ''permissions'');
          invitationId = fresh e InvInsert in
      \<lparr>i_id = invitationId, i_household_id = householdId, i_email = toLowerCase e email,
       i_role = role, i_permissions = permissions,
       i_invited_by = u_id (ru_row (the (user r))),
       i_token = jwt_sign e [invitationId, householdId, email, role, permissions],
       i_status = ''pending'',
       i_expires_at = now e + 7 * 24 * 60 * 60 * 1000,
       i_created_at = now e, i_accepted_at = None\<rparr>)"

text \<open>
  The invite handler. The routes file calls \<^verbatim>\<open>jwt.sign\<close> without importing
  \<^verbatim>\<open>jwt\<close>; \<open>throws e InvJwtSign\<close> is that call failing. A household row that is not
  found makes \<^verbatim>\<open>household.name\<close> throw after the invitation was stored.
\<close>

definition invite_handler :: "env \<Rightarrow> db \<Rightarrow> request \<Rightarrow> response \<times> db \<times> effect list" where
  "invite_handler e d r =
     (let householdId = the (params r ''householdId'');
          role = with_default ''member'' (body r ''role'');
          permissions = with_default ''read_write'' (body r ''permissions'');
          failed = error_response 500 ''Failed to send invitation'';
          create =
            (if throws e InvJwtSign \<or> throws e InvInsert then (failed, d, [])
             else
               let d1 = d\<lparr>household_invitations :=
                            household_invitations d @ [new_invitation e r householdId]\<rparr> in
               if throws e InvFindHousehold then (failed, d1, [])
               else
                 (case List.find (\<lambda>h. h_id h = householdId) (households d1) of
                    None \<Rightarrow> (failed, d1, [])
                  | Some household \<Rightarrow>
                      if throws e InvSendEmail then (failed, d1, [])
                      else
                        (respond 200
                           [(''message'', JStr ''Invitation sent successfully''),
                            (''invitationId'', JStr (fresh e InvInsert)),
                            (''remainingSlots'', JNum (maxUsers r - (userCount r + 1)))],
                         d1, [SendEmail (the (body r ''email'')) ''household-invitation''])))
      in
      if \<not> truthy (body r ''email'') then (error_response 400 ''Email is required'', d, [])
      else if throws e InvFindUser then (failed, d, [])
      else
        (case inv_find_user e d (the (body r ''email'')) of
           None \<Rightarrow> create
         | Some existingUser \<Rightarrow>
             if throws e InvFindMember then (failed, d, [])
             else
               (case inv_find_member d householdId (u_id existingUser) of
                  None \<Rightarrow> create
                | Some existingMember \<Rightarrow>
                    if m_is_active existingMember
                    then (error_response 400 ''User is already a member of this household'',
                          d, [])
                    else if throws e InvReactivate then (failed, d, [])
                    else
                      (respond 200
                         [(''message'', JStr ''User reactivated successfully''),
                          (''user'', user_json existingUser)],
                       d\<lparr>household_members :=
                           map (reactivate e (m_id existingMember) role permissions)
                             (household_members d)\<rparr>,
                       []))))"

text \<open>\<^verbatim>\<open>router.post('/:householdId/invite', authenticateJWT, authorize(['admin']),
  checkHouseholdMembership('full'), checkUserCap, handler)\<close>\<close>

definition invite_route ::
  "env \<Rightarrow> db \<Rightarrow> ident \<Rightarrow> request \<Rightarrow> response \<times> db \<times> effect list" where
  "invite_route e d householdId r =
     (case invite_gate e d (bind_param ''householdId'' householdId r) of
        Answer res \<Rightarrow> (res, d, [])
      | Next r' \<Rightarrow> invite_handler e d r')"

subsection \<open>Accepting an invitation\<close>

text \<open>
  The first statement of the accept handler, lines 139 to 145 of the routes file, is
  \<^verbatim>\<open>db('household_invitations').where({ id: invitationId, status: 'pending',
  expires_at: '>', new Date() }).first()\<close>.
  This is not JavaScript: inside the object literal, \<^verbatim>\<open>new Date()\<close> stands where a
  property is expected. The accept handler cannot run as it is written, and what the
  statement selects once it is repaired is not decided by the source. The other
  handlers of the file, the invite handler among them, are well-formed.

  The handler is therefore embedded for an arbitrary lookup, the parameter \<open>lookup\<close>:
  whatever row, if any, the repaired statement hands to the rest of the handler. The
  rest of the handler, lines 147 to 200, is well-formed and is embedded as written.
  Every statement below about the accept handler either holds for every lookup or
  names the lookup it is about. \<open>find_invitation\<close> is the reading that the
  malformed text suggests (the invitation with this id whose status is \<^verbatim>\<open>pending\<close>
  and whose expiry lies after the current time); the examples use this reading, and
  it is a reading, not the source.

  The handler is written out await by await: every state of \<open>accept_pc\<close> is a point
  where it is suspended on the store and other requests may run.
\<close>

type_synonym lookup = "env \<Rightarrow> db \<Rightarrow> ident \<Rightarrow> invitation_row option"

datatype accept_pc =
    AccStart
  | AccFound invitation_row
  | AccAdmitted invitation_row capacity
  | AccInserted invitation_row capacity
  | AccDone response "effect list"

text \<open>The suggested reading of the malformed lookup.\<close>

definition find_invitation :: lookup where
  "find_invitation e d invitationId =
     List.find (\<lambda>i. i_id i = invitationId \<and> i_status i = ''pending'' \<and> i_expires_at i > now e)
       (household_invitations d)"

definition accept_rejection :: "capacity \<Rightarrow> response" where
  "accept_rejection c = respond 403
     [(''error'', JStr ''User limit reached''),
      (''message'', JStr (''Maximum '' @ show_int (capMaxUsers c)
          @ '' users allowed per household.''))]"

definition accepted_member :: "env \<Rightarrow> ident \<Rightarrow> invitation_row \<Rightarrow> member_row" where
  "accepted_member e userId invitation =
     \<lparr>m_id = fresh e AccInsertMember, m_household_id = i_household_id invitation,
      m_user_id = userId, m_role = i_role invitation,
      m_permissions = i_permissions invitation,
      m_can_invite = (i_role invitation = ''admin''), m_joined_at = now e,
      m_is_active = True, m_updated_at = None\<rparr>"

definition mark_accepted :: "env \<Rightarrow> ident \<Rightarrow> invitation_row \<Rightarrow> invitation_row" where
  "mark_accepted e invitationId i =
     (if i_id i = invitationId
      then i\<lparr>i_status := ''accepted'', i_accepted_at := Some (now e)\<rparr> else i)"

fun accept_step ::
  "lookup \<Rightarrow> env \<Rightarrow> ident \<Rightarrow> user_row \<Rightarrow> accept_pc \<Rightarrow> db \<Rightarrow> accept_pc \<times> db" where
  "accept_step lookup e invitationId u AccStart d =
     (if throws e AccFindInvitation
      then (AccDone (error_response 500 ''Failed to accept invitation'') [], d)
      else
        (case lookup e d invitationId of
           None \<Rightarrow> (AccDone (error_response 400 ''Invalid or expired invitation'') [], d)
         | Some invitation \<Rightarrow>
             if u_email u \<noteq> i_email invitation
             then (AccDone (error_response 403 ''Invitation is for a different email address'')
                     [], d)
             else (AccFound invitation, d)))"
| "accept_step lookup e invitationId u (AccFound invitation) d =
     (case canAddUserToHousehold e AccCount d (i_household_id invitation) of
        None \<Rightarrow> (AccDone (error_response 500 ''Failed to accept invitation'') [], d)
      | Some capacityCheck \<Rightarrow>
          if \<not> canAdd capacityCheck then (AccDone (accept_rejection capacityCheck) [], d)
          else (AccAdmitted invitation capacityCheck, d))"
| "accept_step lookup e invitationId u (AccAdmitted invitation capacityCheck) d =
     (if throws e AccInsertMember
      then (AccDone (error_response 500 ''Failed to accept invitation'') [], d)
      else (AccInserted invitation capacityCheck,
            d\<lparr>household_members :=
                household_members d @ [accepted_member e (u_id u) invitation]\<rparr>))"
| "accept_step lookup e invitationId u (AccInserted invitation capacityCheck) d =
     (if throws e AccUpdateInvitation
      then (AccDone (error_response 500 ''Failed to accept invitation'') [], d)
      else
        (AccDone
           (respond 200
              [(''message'', JStr ''Invitation accepted successfully''),
               (''householdId'', JStr (i_household_id invitation))])
           (if currentUsers capacityCheck + 1 \<ge> capMaxUsers capacityCheck - 1
            then [UserLimitAlert (i_household_id invitation)
                    (currentUsers capacityCheck + 1) (capMaxUsers capacityCheck)]
            else []),
         d\<lparr>household_invitations :=
             map (mark_accepted e invitationId) (household_invitations d)\<rparr>))"
| "accept_step lookup e invitationId u (AccDone res fx) d = (AccDone res fx, d)"

text \<open>One request served alone: its four awaits run back to back.\<close>

definition accept_handler ::
  "lookup \<Rightarrow> env \<Rightarrow> db \<Rightarrow> ident \<Rightarrow> user_row \<Rightarrow> accept_pc \<times> db" where
  "accept_handler lookup e d invitationId u =
     (let (p1, d1) = accept_step lookup e invitationId u AccStart d;
          (p2, d2) = accept_step lookup e invitationId u p1 d1;
          (p3, d3) = accept_step lookup e invitationId u p2 d2
      in accept_step lookup e invitationId u p3 d3)"

text \<open>\<^verbatim>\<open>router.post('/invitations/:invitationId/accept', authenticateJWT, handler)\<close>\<close>

definition accept_route ::
  "lookup \<Rightarrow> env \<Rightarrow> db \<Rightarrow> ident \<Rightarrow> request \<Rightarrow> accept_pc \<times> db" where
  "accept_route lookup e d invitationId r =
     (case authenticateJWT e r of
        Answer res \<Rightarrow> (AccDone res [], d)
      | Next r' \<Rightarrow> accept_handler lookup e d invitationId (ru_row (the (user r'))))"

text \<open>The answer a finished request has sent.\<close>

definition accept_answer :: "accept_pc \<Rightarrow> response option" where
  "accept_answer pc = (case pc of AccDone res fx \<Rightarrow> Some res | _ \<Rightarrow> None)"

text \<open>
  Several accept requests in flight on one store. A schedule names, step by step, the
  request whose pending await is resumed next.
\<close>

record task =
  t_env :: env
  t_invitation :: ident
  t_user :: user_row
  t_pc :: accept_pc

fun run_schedule :: "lookup \<Rightarrow> nat list \<Rightarrow> task list \<times> db \<Rightarrow> task list \<times> db" where
  "run_schedule lookup [] s = s"
| "run_schedule lookup (i # sched) (ts, d) =
     (if i < length ts
      then
        let t = ts ! i;
            (pc, d') = accept_step lookup (t_env t) (t_invitation t) (t_user t) (t_pc t) d
        in run_schedule lookup sched (ts[i := t\<lparr>t_pc := pc\<rparr>], d')
      else run_schedule lookup sched (ts, d))"

subsection \<open>Invite requests in flight together\<close>

text \<open>
  An invite request is suspended on the store between the middleware that checks the
  cap and the handler that writes. \<open>InvChecked\<close> is a request that has passed the
  middleware and waits for its handler to run; other requests may run meanwhile. (The
  middleware and the handler have awaits of their own; running each of them without
  interruption is one of the orders in which the server may resume them.)
\<close>

datatype invite_pc =
    InvStart request
  | InvChecked request
  | InvDone response "effect list"

fun invite_step :: "env \<Rightarrow> ident \<Rightarrow> invite_pc \<Rightarrow> db \<Rightarrow> invite_pc \<times> db" where
  "invite_step e householdId (InvStart r) d =
     (case invite_gate e d (bind_param ''householdId'' householdId r) of
        Answer res \<Rightarrow> (InvDone res [], d)
      | Next r' \<Rightarrow> (InvChecked r', d))"
| "invite_step e householdId (InvChecked r') d =
     (case invite_handler e d r' of (res, d', fx) \<Rightarrow> (InvDone res fx, d'))"
| "invite_step e householdId (InvDone res fx) d = (InvDone res fx, d)"

record invite_task =
  v_env :: env
  v_household :: ident
  v_pc :: invite_pc

fun run_invites :: "nat list \<Rightarrow> invite_task list \<times> db \<Rightarrow> invite_task list \<times> db" where
  "run_invites [] s = s"
| "run_invites (i # sched) (ts, d) =
     (if i < length ts
      then
        let t = ts ! i;
            (pc, d') = invite_step (v_env t) (v_household t) (v_pc t) d
        in run_invites sched (ts[i := t\<lparr>v_pc := pc\<rparr>], d')
      else run_invites sched (ts, d))"

text \<open>What the capacity check stored on a request that has passed it.\<close>

definition checked_counts :: "invite_pc \<Rightarrow> (int \<times> int) option" where
  "checked_counts pc =
     (case pc of InvChecked r \<Rightarrow> Some (userCount r, maxUsers r) | _ \<Rightarrow> None)"

definition invite_answer :: "invite_pc \<Rightarrow> response option" where
  "invite_answer pc = (case pc of InvDone res fx \<Rightarrow> Some res | _ \<Rightarrow> None)"

section \<open>websocket.js: sessions, rooms and emissions\<close>

record session_household =
  sh_id :: ident
  sh_name :: string
  sh_role :: string
  sh_permissions :: string

text \<open>\<^verbatim>\<open>socket.user\<close>, attached by the handshake middleware.\<close>

record socket_user =
  su_id :: ident
  su_email :: string
  su_username :: string
  su_firstName :: string
  su_lastName :: string
  su_role :: string
  su_households :: "session_household list"

record socket =
  sk_id :: ident
  sk_user :: socket_user

text \<open>
  A pending \<^verbatim>\<open>setTimeout\<close> callback of \<^verbatim>\<open>collab:highlight\<close>: its due time and the
  values its closure holds.
\<close>

record timer =
  tm_due :: nat
  tm_socket :: ident
  tm_room :: string
  tm_userId :: ident
  tm_itemId :: "string option"

text \<open>
  The socket server: the connected sockets, the adapter's rooms (a room is a JavaScript
  \<^verbatim>\<open>Set\<close> of socket ids, kept here in insertion order), the pending timers and the clock
  in milliseconds.
\<close>

record io_state =
  sockets :: "socket list"
  rooms :: "string \<Rightarrow> ident list"
  timers :: "timer list"
  clock :: nat

text \<open>
  Whom an \<^verbatim>\<open>emit\<close> addresses: \<^verbatim>\<open>socket.emit\<close>, \<^verbatim>\<open>io.to(room)\<close>,
  \<^verbatim>\<open>socket.to(room)\<close> and \<^verbatim>\<open>socket.broadcast\<close>.
\<close>

datatype target =
    ToSocket ident
  | ToRoom string
  | ToRoomExcept string ident
  | ToAllExcept ident

text \<open>What a handler does, in order: emissions, the chat row it stored, push
  notifications, and Redis subscriptions.\<close>

datatype action =
    Emit target string jval
  | Persist chat_row
  | Push ident string
  | Subscribe string
  | Unsubscribe string

definition recipients :: "io_state \<Rightarrow> target \<Rightarrow> ident list" where
  "recipients st tg =
     (case tg of
        ToSocket sid \<Rightarrow> [sid]
      | ToRoom room \<Rightarrow> rooms st room
      | ToRoomExcept room sid \<Rightarrow> filter (\<lambda>x. x \<noteq> sid) (rooms st room)
      | ToAllExcept sid \<Rightarrow> filter (\<lambda>x. x \<noteq> sid) (map sk_id (sockets st)))"

text \<open>The copies of one event that a list of actions delivers to one socket.\<close>

definition copies :: "io_state \<Rightarrow> string \<Rightarrow> ident \<Rightarrow> action list \<Rightarrow> nat" where
  "copies st ev sid acts =
     length (filter (\<lambda>x. x = sid)
       (concat (map (\<lambda>a. case a of Emit tg ev' p \<Rightarrow> if ev' = ev then recipients st tg else []
                                  | _ \<Rightarrow> []) acts)))"

definition emissions :: "string \<Rightarrow> action list \<Rightarrow> action list" where
  "emissions ev acts = filter (\<lambda>a. case a of Emit tg ev' p \<Rightarrow> ev' = ev | _ \<Rightarrow> False) acts"

definition join_room :: "string \<Rightarrow> ident \<Rightarrow> io_state \<Rightarrow> io_state" where
  "join_room room sid st =
     st\<lparr>rooms := (rooms st)
          (room := (if sid \<in> set (rooms st room) then rooms st room else rooms st room @ [sid]))\<rparr>"

definition leave_room :: "string \<Rightarrow> ident \<Rightarrow> io_state \<Rightarrow> io_state" where
  "leave_room room sid st = st\<lparr>rooms := (rooms st)(room := removeAll sid (rooms st room))\<rparr>"

text \<open>A template literal prints an undefined value as \<^verbatim>\<open>undefined\<close>.\<close>

definition tmpl :: "string option \<Rightarrow> string" where
  "tmpl v = (case v of None \<Rightarrow> ''undefined'' | Some s \<Rightarrow> s)"

definition error_event :: "ident \<Rightarrow> string \<Rightarrow> action" where
  "error_event sid msg = Emit (ToSocket sid) ''error'' (JObj [(''message'', JStr msg)])"

subsection \<open>Handshake\<close>

datatype token = NoToken | BadToken | Token ident

datatype sock_call = SockFindUser | SockHouseholds

definition session_households :: "db \<Rightarrow> ident \<Rightarrow> session_household list" where
  "session_households d uid =
     concat (map (\<lambda>m. map (\<lambda>h. \<lparr>sh_id = h_id h, sh_name = h_name h, sh_role = m_role m,
                                   sh_permissions = m_permissions m\<rparr>)
                         (filter (\<lambda>h. h_id h = m_household_id m \<and> h_is_active h) (households d)))
                 (filter (\<lambda>m. m_user_id m = uid \<and> m_is_active m) (household_members d)))"

definition handshake ::
  "nat \<Rightarrow> (sock_call \<Rightarrow> bool) \<Rightarrow> db \<Rightarrow> token \<Rightarrow> string + socket_user" where
  "handshake t rejects d tok =
     (case tok of
        NoToken \<Rightarrow> Inl ''Authentication token required''
      | BadToken \<Rightarrow> Inl ''Authentication failed''
      | Token uid \<Rightarrow>
          if rejects SockFindUser then Inl ''Authentication failed''
          else
            (case List.find (\<lambda>u. u_id u = uid \<and> u_is_active u) (users d) of
               None \<Rightarrow> Inl ''Invalid authentication token''
             | Some u \<Rightarrow>
                 if (case u_locked_until u of None \<Rightarrow> False | Some l \<Rightarrow> t < l)
                 then Inl ''Account is temporarily locked''
                 else if rejects SockHouseholds then Inl ''Authentication failed''
                 else Inr \<lparr>su_id = u_id u, su_email = u_email u, su_username = u_username u,
                           su_firstName = u_first_name u, su_lastName = u_last_name u,
                           su_role = u_role u,
                           su_households = session_households d (u_id u)\<rparr>))"

subsection \<open>Connection and disconnection\<close>

definition presence :: "io_state \<Rightarrow> socket \<Rightarrow> jval" where
  "presence st sk = JObj
     [(''userId'', JStr (su_id (sk_user sk))), (''username'', JStr (su_username (sk_user sk))),
      (''timestamp'', JTime (clock st))]"

text \<open>
  The \<^verbatim>\<open>connection\<close> handler. The server has registered the socket before the event.
\<close>

definition on_connection :: "socket \<Rightarrow> io_state \<Rightarrow> io_state \<times> action list" where
  "on_connection sk st =
     (let sid = sk_id sk;
          st1 = st\<lparr>sockets := sockets st @ [sk]\<rparr>;
          st2 = join_room (''user:'' @ su_id (sk_user sk)) sid st1;
          st3 = fold (\<lambda>household. join_room (''household:'' @ sh_id household) sid)
                  (su_households (sk_user sk)) st2
      in (st3, [Emit (ToAllExcept sid) ''user:online'' (presence st sk),
                Subscribe (''user:'' @ su_id (sk_user sk))]))"

text \<open>A connection attempt: the handshake, and the handler only when it succeeds.\<close>

definition connect_socket ::
  "nat \<Rightarrow> (sock_call \<Rightarrow> bool) \<Rightarrow> db \<Rightarrow> ident \<Rightarrow> token \<Rightarrow> io_state
     \<Rightarrow> io_state \<times> action list" where
  "connect_socket t rejects d sid tok st =
     (case handshake t rejects d tok of
        Inl err \<Rightarrow> (st, [])
      | Inr u \<Rightarrow> on_connection \<lparr>sk_id = sid, sk_user = u\<rparr> st)"

text \<open>
  The \<^verbatim>\<open>disconnect\<close> handler. The server has taken the socket out of its rooms and out
  of the connected sockets before the event; pending timers are not cleared.
\<close>

definition on_disconnect :: "socket \<Rightarrow> io_state \<Rightarrow> io_state \<times> action list" where
  "on_disconnect sk st =
     (let sid = sk_id sk;
          st1 = st\<lparr>sockets := filter (\<lambda>x. sk_id x \<noteq> sid) (sockets st),
                   rooms := (\<lambda>room. removeAll sid (rooms st room))\<rparr>
      in (st1, [Emit (ToAllExcept sid) ''user:offline'' (presence st sk),
                Unsubscribe (''user:'' @ su_id (sk_user sk))]))"

subsection \<open>Collaboration rooms\<close>

record collab_data =
  documentType :: "string option"
  documentId :: "string option"
  householdId :: "string option"
  itemId :: "string option"
  noteText :: "string option"

definition collab_room :: "collab_data \<Rightarrow> string" where
  "collab_room data = ''collab:'' @ tmpl (documentType data) @ '':'' @ tmpl (documentId data)"

definition person :: "socket_user \<Rightarrow> jval" where
  "person u = JObj [(''id'', JStr (su_id u)), (''username'', JStr (su_username u)),
                    (''firstName'', JStr (su_firstName u)), (''lastName'', JStr (su_lastName u))]"

definition collaborators :: "io_state \<Rightarrow> string \<Rightarrow> jval list" where
  "collaborators st room =
     List.map_filter
       (\<lambda>sid. map_option (\<lambda>s. person (sk_user s)) (List.find (\<lambda>s. sk_id s = sid) (sockets st)))
       (rooms st room)"

definition hasAccess :: "socket \<Rightarrow> ident \<Rightarrow> bool" where
  "hasAccess sk hid = (\<exists>h \<in> set (su_households (sk_user sk)). sh_id h = hid)"

definition collab_join :: "socket \<Rightarrow> collab_data \<Rightarrow> io_state \<Rightarrow> io_state \<times> action list" where
  "collab_join sk data st =
     (if \<not> truthy (documentType data) \<or> \<not> truthy (documentId data)
      then (st, [error_event (sk_id sk) ''Document type and ID required''])
      else if truthy (householdId data) \<and> \<not> hasAccess sk (the (householdId data))
      then (st, [error_event (sk_id sk) ''Access denied to this household''])
      else
        let roomName = collab_room data;
            st' = join_room roomName (sk_id sk) st
        in (st',
            [Emit (ToRoomExcept roomName (sk_id sk)) ''collab:user-joined''
               (JObj [(''user'', person (sk_user sk)), (''timestamp'', JTime (clock st))]),
             Emit (ToSocket (sk_id sk)) ''collab:collaborators''
               (JObj [(''documentType'', opt_str (documentType data)),
                      (''documentId'', opt_str (documentId data)),
                      (''collaborators'', JArr (collaborators st' roomName))])]))"

definition collab_leave :: "socket \<Rightarrow> collab_data \<Rightarrow> io_state \<Rightarrow> io_state \<times> action list" where
  "collab_leave sk data st =
     (let roomName = collab_room data in
      (leave_room roomName (sk_id sk) st,
       [Emit (ToRoomExcept roomName (sk_id sk)) ''collab:user-left'' (presence st sk)]))"

subsection \<open>Highlights and their timers\<close>

definition collab_highlight ::
  "socket \<Rightarrow> collab_data \<Rightarrow> io_state \<Rightarrow> io_state \<times> action list" where
  "collab_highlight sk data st =
     (let roomName = collab_room data in
      (st\<lparr>timers := timers st @
            [\<lparr>tm_due = clock st + 30000, tm_socket = sk_id sk, tm_room = roomName,
              tm_userId = su_id (sk_user sk), tm_itemId = itemId data\<rparr>]\<rparr>,
       [Emit (ToRoomExcept roomName (sk_id sk)) ''collab:highlight''
          (JObj [(''userId'', JStr (su_id (sk_user sk))),
                 (''username'', JStr (su_username (sk_user sk))),
                 (''itemId'', opt_str (itemId data)), (''note'', opt_str (noteText data)),
                 (''timestamp'', JTime (clock st))])]))"

text \<open>The callback of a timer: \<^verbatim>\<open>socket.to(roomName).emit('collab:highlight-remove', ...)\<close>.\<close>

definition fire :: "timer \<Rightarrow> action" where
  "fire t = Emit (ToRoomExcept (tm_room t) (tm_socket t)) ''collab:highlight-remove''
     (JObj [(''userId'', JStr (tm_userId t)), (''itemId'', opt_str (tm_itemId t))])"

text \<open>Time passes up to \<open>t\<close>: every timer due by then runs, in the order it was set.\<close>

definition advance :: "nat \<Rightarrow> io_state \<Rightarrow> io_state \<times> action list" where
  "advance t st =
     (st\<lparr>clock := max (clock st) t, timers := filter (\<lambda>x. \<not> tm_due x \<le> t) (timers st)\<rparr>,
      map fire (filter (\<lambda>x. tm_due x \<le> t) (timers st)))"

subsection \<open>Chat\<close>

record chat_data =
  roomType :: string
  roomId :: string
  message :: "string option"
  parentMessageId :: "string option"

definition chat_room :: "string \<Rightarrow> string \<Rightarrow> string" where
  "chat_room rt rid = ''chat:'' @ rt @ '':'' @ rid"

text \<open>
  The history query: the room's messages joined with their authors (\<^verbatim>\<open>users.id\<close> is the
  primary key, so at most one users row matches a message), newest first, cut at the
  limit. Rows with the same \<^verbatim>\<open>created_at\<close> come in the order a stable sort leaves them.
\<close>

definition room_messages :: "db \<Rightarrow> string \<Rightarrow> string \<Rightarrow> chat_row list" where
  "room_messages d rt rid =
     filter (\<lambda>m. c_room_type m = rt \<and> c_room_id m = rid) (chat_messages d)"

definition author :: "db \<Rightarrow> chat_row \<Rightarrow> user_row option" where
  "author d m = List.find (\<lambda>u. u_id u = c_user_id m) (users d)"

definition joined_messages :: "db \<Rightarrow> string \<Rightarrow> string \<Rightarrow> (chat_row \<times> user_row) list" where
  "joined_messages d rt rid =
     List.map_filter (\<lambda>m. map_option (\<lambda>u. (m, u)) (author d m)) (room_messages d rt rid)"

definition recent_rows ::
  "db \<Rightarrow> string \<Rightarrow> string \<Rightarrow> nat \<Rightarrow> (chat_row \<times> user_row) list" where
  "recent_rows d rt rid limit =
     take limit (rev (sort_key (\<lambda>(m, u). c_created_at m) (joined_messages d rt rid)))"

definition format_message :: "string \<Rightarrow> string \<Rightarrow> chat_row \<times> user_row \<Rightarrow> jval" where
  "format_message rt rid = (\<lambda>(m, u). JObj
     [(''id'', JStr (c_id m)), (''roomType'', JStr rt), (''roomId'', JStr rid),
      (''user'', JObj [(''id'', JStr (u_id u)), (''username'', JStr (u_username u)),
                       (''firstName'', JStr (u_first_name u)),
                       (''lastName'', JStr (u_last_name u))]),
      (''message'', JStr (c_message m)),
      (''parentMessageId'', col_str (c_parent_message_id m)),
      (''timestamp'', JTime (c_created_at m))])"

definition sendRecentMessages ::
  "env \<Rightarrow> db \<Rightarrow> socket \<Rightarrow> string \<Rightarrow> string \<Rightarrow> nat \<Rightarrow> action list" where
  "sendRecentMessages e d sk rt rid limit =
     (if throws e ChatHistory then []
      else
        let formattedMessages = map (format_message rt rid) (rev (recent_rows d rt rid limit))
        in [Emit (ToSocket (sk_id sk)) ''chat:history''
              (JObj [(''roomType'', JStr rt), (''roomId'', JStr rid),
                     (''messages'', JArr formattedMessages)])])"

text \<open>\<^verbatim>\<open>chat:join\<close> calls \<^verbatim>\<open>sendRecentMessages\<close> without a limit: the default 50 applies.\<close>

definition chat_join ::
  "env \<Rightarrow> db \<Rightarrow> socket \<Rightarrow> chat_data \<Rightarrow> io_state \<Rightarrow> io_state \<times> action list" where
  "chat_join e d sk data st =
     (join_room (chat_room (roomType data) (roomId data)) (sk_id sk) st,
      sendRecentMessages e d sk (roomType data) (roomId data) 50)"

text \<open>
  Push notifications after a chat message, best effort: a rejection ends them and is
  only logged.
\<close>

definition sendChatNotifications :: "env \<Rightarrow> db \<Rightarrow> string \<Rightarrow> string \<Rightarrow> ident \<Rightarrow> action list" where
  "sendChatNotifications e d rt rid senderId =
     (if throws e ChatOffline then []
      else
        let offlineUsers = filter (\<lambda>m. m_household_id m = rid \<and> m_is_active m
                                        \<and> m_user_id m \<noteq> senderId) (household_members d)
        in concat (map (\<lambda>m.
             case List.find (\<lambda>p. p_user_id p = m_user_id m) (user_preferences d) of
               None \<Rightarrow> []
             | Some userPrefs \<Rightarrow>
                 if p_push_notifications_enabled userPrefs
                 then [Push (m_user_id m) (''New message in '' @ rt)] else [])
           offlineUsers))"

definition chat_row_of :: "env \<Rightarrow> io_state \<Rightarrow> socket \<Rightarrow> chat_data \<Rightarrow> chat_row" where
  "chat_row_of e st sk data =
     \<lparr>c_id = fresh e ChatInsert, c_room_type = roomType data, c_room_id = roomId data,
      c_user_id = su_id (sk_user sk), c_message = trim e (the (message data)),
      c_parent_message_id = parentMessageId data, c_created_at = clock st\<rparr>"

definition message_data :: "socket \<Rightarrow> chat_row \<Rightarrow> jval" where
  "message_data sk row = JObj
     [(''id'', JStr (c_id row)), (''roomType'', JStr (c_room_type row)),
      (''roomId'', JStr (c_room_id row)), (''user'', person (sk_user sk)),
      (''message'', JStr (c_message row)),
      (''parentMessageId'', opt_str (c_parent_message_id row)),
      (''timestamp'', JTime (c_created_at row))]"

definition chat_message ::
  "env \<Rightarrow> socket \<Rightarrow> chat_data \<Rightarrow> io_state \<Rightarrow> db \<Rightarrow> db \<times> action list" where
  "chat_message e sk data st d =
     (if \<not> truthy (message data) \<or> length (trim e (the (message data))) = 0
      then (d, [error_event (sk_id sk) ''Message cannot be empty''])
      else if throws e ChatInsert
      then (d, [error_event (sk_id sk) ''Failed to send message''])
      else
        let savedMessage = chat_row_of e st sk data;
            roomName = chat_room (roomType data) (roomId data)
        in (d\<lparr>chat_messages := chat_messages d @ [savedMessage]\<rparr>,
            [Persist savedMessage,
             Emit (ToRoom roomName) ''chat:message'' (message_data sk savedMessage)]
            @ sendChatNotifications e d (roomType data) (roomId data) (su_id (sk_user sk))))"

subsection \<open>The server as a state machine\<close>

datatype event =
    Connect socket
  | Disconnect ident
  | CollabJoin ident collab_data
  | CollabLeave ident collab_data
  | CollabHighlight ident collab_data
  | ChatJoin ident chat_data
  | ChatMessage ident chat_data
  | Advance nat

definition connected :: "io_state \<Rightarrow> ident \<Rightarrow> socket option" where
  "connected st sid = List.find (\<lambda>s. sk_id s = sid) (sockets st)"

text \<open>An event of a socket that is not connected reaches no handler.\<close>

definition on_socket ::
  "io_state \<Rightarrow> db \<Rightarrow> ident \<Rightarrow> (socket \<Rightarrow> (io_state \<times> db) \<times> action list)
     \<Rightarrow> (io_state \<times> db) \<times> action list" where
  "on_socket st d sid handler =
     (case connected st sid of None \<Rightarrow> ((st, d), []) | Some sk \<Rightarrow> handler sk)"

definition serve :: "env \<Rightarrow> event \<Rightarrow> io_state \<times> db \<Rightarrow> (io_state \<times> db) \<times> action list" where
  "serve e ev = (\<lambda>(st, d).
     case ev of
       Connect sk \<Rightarrow> (let (st', acts) = on_connection sk st in ((st', d), acts))
     | Disconnect sid \<Rightarrow>
         on_socket st d sid (\<lambda>sk. let (st', acts) = on_disconnect sk st in ((st', d), acts))
     | CollabJoin sid data \<Rightarrow>
         on_socket st d sid (\<lambda>sk. let (st', acts) = collab_join sk data st in ((st', d), acts))
     | CollabLeave sid data \<Rightarrow>
         on_socket st d sid (\<lambda>sk. let (st', acts) = collab_leave sk data st in ((st', d), acts))
     | CollabHighlight sid data \<Rightarrow>
         on_socket st d sid
           (\<lambda>sk. let (st', acts) = collab_highlight sk data st in ((st', d), acts))
     | ChatJoin sid data \<Rightarrow>
         on_socket st d sid (\<lambda>sk. let (st', acts) = chat_join e d sk data st in ((st', d), acts))
     | ChatMessage sid data \<Rightarrow>
         on_socket st d sid (\<lambda>sk. let (d', acts) = chat_message e sk data st d in ((st, d'), acts))
     | Advance t \<Rightarrow> (let (st', acts) = advance t st in ((st', d), acts)))"

text \<open>A run: the events in order, each with the actions it caused.\<close>

fun run :: "env \<Rightarrow> event list \<Rightarrow> io_state \<times> db \<Rightarrow> (io_state \<times> db) \<times> action list list" where
  "run e [] s = (s, [])"
| "run e (ev # evs) s =
     (let (s', acts) = serve e ev s;
          (s'', rest) = run e evs s'
      in (s'', acts # rest))"

section \<open>Example data\<close>

text \<open>
  On ASCII text the platform's \<^verbatim>\<open>toLowerCase\<close> and \<^verbatim>\<open>trim\<close> are the two functions
  below; the examples hold ASCII text only.
\<close>

definition ascii_lower :: "string \<Rightarrow> string" where
  "ascii_lower s =
     map (\<lambda>c. case map_of (zip ''ABCDEFGHIJKLMNOPQRSTUVWXYZ'' ''abcdefghijklmnopqrstuvwxyz'') c
               of None \<Rightarrow> c | Some l \<Rightarrow> l) s"

definition ascii_space :: "char \<Rightarrow> bool" where
  "ascii_space c = (c \<in> set [CHR 0x20, CHR 0x09, CHR 0x0A, CHR 0x0B, CHR 0x0C, CHR 0x0D])"

definition ascii_trim :: "string \<Rightarrow> string" where
  "ascii_trim s = rev (dropWhile ascii_space (rev (dropWhile ascii_space s)))"

definition quiet_env :: env where
  "quiet_env =
     \<lparr>now = 1000, MAX_USERS = None, throws = (\<lambda>c. False),
      fresh = (\<lambda>c. if c = RegInsertUser then ''user-new''
                    else if c = RegInsertHousehold then ''household-new'' else ''row-new''),
      bcrypt_hash = (\<lambda>p. ''hash:'' @ p),
      jwt_sign = (\<lambda>fields. concat fields),
      toLowerCase = ascii_lower, trim = ascii_trim\<rparr>"

definition empty_db :: db where
  "empty_db = \<lparr>users = [], households = [], household_members = [],
     household_invitations = [], chat_messages = [], user_preferences = []\<rparr>"

definition blank_request :: request where
  "blank_request = \<lparr>body = (\<lambda>k. None), params = (\<lambda>k. None), bearer = PassportNoUser,
     user = None, userCount = 0, maxUsers = 0, householdMembership = None\<rparr>"

definition signup_request :: request where
  "signup_request = blank_request\<lparr>body :=
     map_of [(''email'', ''Ann@Example.org''), (''username'', ''ann''),
             (''password'', ''correct horse''), (''firstName'', ''Ann''),
             (''lastName'', ''Lee'')]\<rparr>"

definition mk_user :: "ident \<Rightarrow> string \<Rightarrow> string \<Rightarrow> user_row" where
  "mk_user uid email role =
     \<lparr>u_id = uid, u_email = email, u_username = uid, u_password_hash = ''x'',
      u_first_name = uid, u_last_name = ''Doe'', u_phone = None, u_role = role,
      u_is_active = True, u_locked_until = None\<rparr>"

definition mk_member :: "ident \<Rightarrow> ident \<Rightarrow> ident \<Rightarrow> string \<Rightarrow> bool \<Rightarrow> member_row" where
  "mk_member mid hid uid role active =
     \<lparr>m_id = mid, m_household_id = hid, m_user_id = uid, m_role = role,
      m_permissions = ''read_write'', m_can_invite = False, m_joined_at = 0,
      m_is_active = active, m_updated_at = None\<rparr>"

definition mk_invitation :: "ident \<Rightarrow> ident \<Rightarrow> string \<Rightarrow> invitation_row" where
  "mk_invitation iid hid email =
     \<lparr>i_id = iid, i_household_id = hid, i_email = email, i_role = ''member'',
      i_permissions = ''read_write'', i_invited_by = ''u1'', i_token = ''t'',
      i_status = ''pending'', i_expires_at = 9000, i_created_at = 0, i_accepted_at = None\<rparr>"

text \<open>Household \<open>h1\<close> with four active members; \<open>u5\<close> and \<open>u6\<close> hold pending invitations.\<close>

definition four_members :: "member_row list" where
  "four_members =
     [mk_member ''m1'' ''h1'' ''u1'' ''admin'' True, mk_member ''m2'' ''h1'' ''u2'' ''member'' True,
      mk_member ''m3'' ''h1'' ''u3'' ''member'' True, mk_member ''m4'' ''h1'' ''u4'' ''member'' True]"

definition house_db :: "member_row list \<Rightarrow> db" where
  "house_db ms = empty_db
     \<lparr>users := [mk_user ''u1'' ''u1@x.org'' ''admin'', mk_user ''u5'' ''u5@x.org'' ''user'',
                mk_user ''u6'' ''u6@x.org'' ''user''],
      households := [\<lparr>h_id = ''h1'', h_name = ''Home'', h_description = [],
                       h_owner_id = ''u1'', h_is_active = True\<rparr>],
      household_members := ms,
      household_invitations :=
        [mk_invitation ''i5'' ''h1'' ''u5@x.org'', mk_invitation ''i6'' ''h1'' ''u6@x.org'']\<rparr>"

definition full_db :: db where
  "full_db = house_db (four_members @ [mk_member ''m5'' ''h1'' ''u5'' ''member'' True])"

text \<open>The same household after \<open>u5\<close> was removed: four active rows and one inactive row.\<close>

definition lapsed_db :: db where
  "lapsed_db = house_db (four_members @ [mk_member ''m5'' ''h1'' ''u5'' ''member'' False])"

definition as_user :: "user_row \<Rightarrow> request" where
  "as_user u = blank_request\<lparr>bearer := PassportUser u\<rparr>"

text \<open>Two accept requests in flight, one for each pending invitation.\<close>

definition racing :: "task list" where
  "racing =
     [\<lparr>t_env = quiet_env\<lparr>fresh := (\<lambda>c. ''m5'')\<rparr>, t_invitation = ''i5'',
       t_user = mk_user ''u5'' ''u5@x.org'' ''user'', t_pc = AccStart\<rparr>,
      \<lparr>t_env = quiet_env\<lparr>fresh := (\<lambda>c. ''m6'')\<rparr>, t_invitation = ''i6'',
       t_user = mk_user ''u6'' ''u6@x.org'' ''user'', t_pc = AccStart\<rparr>]"

text \<open>The household full again, with a second, inactive row for \<open>u6\<close>.\<close>

definition full_lapsed_db :: db where
  "full_lapsed_db = house_db (four_members @ [mk_member ''m5'' ''h1'' ''u5'' ''member'' True,
      mk_member ''m6'' ''h1'' ''u6'' ''member'' False])"

text \<open>An invite for \<open>u6\<close> whose body names another household than the path does.\<close>

definition bypass_request :: request where
  "bypass_request = (as_user (mk_user ''u1'' ''u1@x.org'' ''admin''))
     \<lparr>body := map_of [(''email'', ''u6@x.org''), (''householdId'', ''h2'')]\<rparr>"

text \<open>
  The household with four active rows and inactive rows for \<open>u5\<close> and \<open>u6\<close>, and the
  admin's invite requests for the two, in flight together.
\<close>

definition two_lapsed_db :: db where
  "two_lapsed_db = house_db (four_members @ [mk_member ''m5'' ''h1'' ''u5'' ''member'' False,
      mk_member ''m6'' ''h1'' ''u6'' ''member'' False])"

definition invite_for :: "string \<Rightarrow> request" where
  "invite_for email = (as_user (mk_user ''u1'' ''u1@x.org'' ''admin''))
     \<lparr>body := map_of [(''email'', email)]\<rparr>"

definition inviting :: "invite_task list" where
  "inviting =
     [\<lparr>v_env = quiet_env, v_household = ''h1'', v_pc = InvStart (invite_for ''u5@x.org'')\<rparr>,
      \<lparr>v_env = quiet_env, v_household = ''h1'', v_pc = InvStart (invite_for ''u6@x.org'')\<rparr>]"


section \<open>Notions the claims are stated with\<close>

text \<open>The last \<open>n\<close> elements of a list, and a room's messages oldest first.\<close>

definition last_n :: "nat \<Rightarrow> 'a list \<Rightarrow> 'a list" where
  "last_n n xs = drop (length xs - n) xs"

definition oldest_first :: "chat_row list \<Rightarrow> chat_row list" where
  "oldest_first ms = sort_key c_created_at ms"

text \<open>A property of a JSON object, as its reader finds it.\<close>

definition field :: "string \<Rightarrow> jval \<Rightarrow> jval option" where
  "field k j = (case j of JObj kv \<Rightarrow> map_of kv k | _ \<Rightarrow> None)"

text \<open>The messages that the \<^verbatim>\<open>chat:history\<close> events among some actions carry.\<close>

definition sent_history :: "action list \<Rightarrow> jval list" where
  "sent_history acts =
     concat (map (\<lambda>a. case a of
                       Emit tg ev p \<Rightarrow>
                         (if ev = ''chat:history''
                          then (case field ''messages'' p of Some (JArr ms) \<Rightarrow> ms | _ \<Rightarrow> [])
                          else [])
                     | _ \<Rightarrow> []) acts)"

text \<open>
  The stored messages of a room whose author has a row in the users table, and a
  stored message as an entry of the history: its id, room, text, parent and creation
  time, and its author's id and names.
\<close>

definition room_history :: "db \<Rightarrow> string \<Rightarrow> string \<Rightarrow> chat_row list" where
  "room_history d rt rid =
     filter (\<lambda>m. c_room_type m = rt \<and> c_room_id m = rid
                  \<and> (\<exists>u \<in> set (users d). u_id u = c_user_id m))
       (chat_messages d)"

definition history_entry :: "db \<Rightarrow> chat_row \<Rightarrow> jval" where
  "history_entry d m = JObj
     [(''id'', JStr (c_id m)), (''roomType'', JStr (c_room_type m)),
      (''roomId'', JStr (c_room_id m)),
      (''user'',
         (case List.find (\<lambda>u. u_id u = c_user_id m) (users d) of
            None \<Rightarrow> JUndefined
          | Some u \<Rightarrow> JObj [(''id'', JStr (u_id u)), (''username'', JStr (u_username u)),
                            (''firstName'', JStr (u_first_name u)),
                            (''lastName'', JStr (u_last_name u))])),
      (''message'', JStr (c_message m)),
      (''parentMessageId'',
         (case c_parent_message_id m of None \<Rightarrow> JNull | Some parent \<Rightarrow> JStr parent)),
      (''timestamp'', JTime (c_created_at m))]"

text \<open>The timer that a highlight sets, and the events that leave the clock before a time.\<close>

definition highlight_timer :: "socket \<Rightarrow> collab_data \<Rightarrow> io_state \<Rightarrow> timer" where
  "highlight_timer sk data st =
     \<lparr>tm_due = clock st + 30000, tm_socket = sk_id sk, tm_room = collab_room data,
      tm_userId = su_id (sk_user sk), tm_itemId = itemId data\<rparr>"

definition before :: "nat \<Rightarrow> event \<Rightarrow> bool" where
  "before due ev = (case ev of Advance t \<Rightarrow> t < due | _ \<Rightarrow> True)"

section \<open>Example sessions\<close>

definition empty_io :: io_state where
  "empty_io = \<lparr>sockets = [], rooms = (\<lambda>room. []), timers = [], clock = 0\<rparr>"

definition ann :: socket_user where
  "ann = \<lparr>su_id = ''u1'', su_email = ''ann@x.org'', su_username = ''ann'', su_firstName = ''Ann'',
     su_lastName = ''Lee'', su_role = ''user'',
     su_households = [\<lparr>sh_id = ''h1'', sh_name = ''Home'', sh_role = ''admin'',
                        sh_permissions = ''full''\<rparr>]\<rparr>"

definition bob :: socket_user where
  "bob = \<lparr>su_id = ''u2'', su_email = ''bob@x.org'', su_username = ''bob'', su_firstName = ''Bob'',
     su_lastName = ''Ray'', su_role = ''user'', su_households = []\<rparr>"

text \<open>Ann is connected twice; Bob, who belongs to no household, once.\<close>

definition phone :: socket where
  "phone = \<lparr>sk_id = ''s1'', sk_user = ann\<rparr>"

definition laptop :: socket where
  "laptop = \<lparr>sk_id = ''s2'', sk_user = ann\<rparr>"

definition tablet :: socket where
  "tablet = \<lparr>sk_id = ''s3'', sk_user = bob\<rparr>"

definition budget_doc :: collab_data where
  "budget_doc = \<lparr>documentType = Some ''budget'', documentId = Some ''b1'', householdId = None,
     itemId = Some ''row7'', noteText = None\<rparr>"

definition home_chat :: chat_data where
  "home_chat = \<lparr>roomType = ''household'', roomId = ''h1'', message = Some '' hello '',
     parentMessageId = None\<rparr>"

definition mk_chat :: "ident \<Rightarrow> ident \<Rightarrow> string \<Rightarrow> nat \<Rightarrow> chat_row" where
  "mk_chat cid uid txt t =
     \<lparr>c_id = cid, c_room_type = ''household'', c_room_id = ''h1'', c_user_id = uid,
      c_message = txt, c_parent_message_id = None, c_created_at = t\<rparr>"

text \<open>Three messages of room \<open>h1\<close>, stored out of time order, and one of another room.\<close>

definition chat_db :: db where
  "chat_db = empty_db
     \<lparr>users := [mk_user ''u1'' ''ann@x.org'' ''user'', mk_user ''u2'' ''bob@x.org'' ''user''],
      chat_messages :=
        [mk_chat ''c3'' ''u1'' ''third'' 30, mk_chat ''c1'' ''u1'' ''first'' 10,
         (mk_chat ''c9'' ''u2'' ''elsewhere'' 15)\<lparr>c_room_id := ''h2''\<rparr>,
         mk_chat ''c2'' ''u2'' ''second'' 20]\<rparr>"

text \<open>Ann's phone and Bob's tablet, both in the document room, and both in the chat room.\<close>

definition collab_io :: io_state where
  "collab_io = \<lparr>sockets = [phone, tablet],
     rooms = (\<lambda>room. if room = ''collab:budget:b1'' then [''s1'', ''s3''] else []),
     timers = [], clock = 0\<rparr>"

definition chat_io :: io_state where
  "chat_io = \<lparr>sockets = [phone, laptop, tablet],
     rooms = (\<lambda>room. if room = ''chat:household:h1'' then [''s1'', ''s3''] else []),
     timers = [], clock = 40\<rparr>"

text \<open>
  The chat store with household \<open>h1\<close>, of which only \<open>u1\<close> is a member, and the session
  that the handshake gives \<open>u2\<close>, who is a member of no household.
\<close>

definition home_db :: db where
  "home_db = chat_db
     \<lparr>households := [\<lparr>h_id = ''h1'', h_name = ''Home'', h_description = [],
                       h_owner_id = ''u1'', h_is_active = True\<rparr>],
      household_members := [mk_member ''m1'' ''h1'' ''u1'' ''admin'' True]\<rparr>"

definition visitor :: socket_user where
  "visitor = \<lparr>su_id = ''u2'', su_email = ''bob@x.org'', su_username = ''u2'',
     su_firstName = ''u2'', su_lastName = ''Doe'', su_role = ''user'', su_households = []\<rparr>"

definition guest :: socket where
  "guest = \<lparr>sk_id = ''s3'', sk_user = visitor\<rparr>"

text \<open>The chat store after the users row of \<open>u2\<close>, the author of \<open>c2\<close>, is gone.\<close>

definition orphan_db :: db where
  "orphan_db = empty_db
     \<lparr>users := [mk_user ''u1'' ''ann@x.org'' ''user''],
      chat_messages :=
        [mk_chat ''c1'' ''u1'' ''first'' 10, mk_chat ''c2'' ''u2'' ''second'' 20,
         mk_chat ''c3'' ''u1'' ''third'' 30]\<rparr>"

text \<open>A room with 52 messages, numbered by their creation time.\<close>

definition numbered :: "nat \<Rightarrow> chat_row" where
  "numbered n = mk_chat (''c'' @ digits n) ''u1'' (''message '' @ digits n) n"

definition big_chat_db :: db where
  "big_chat_db = empty_db
     \<lparr>users := [mk_user ''u1'' ''ann@x.org'' ''user''],
      chat_messages := map numbered [0..<52]\<rparr>"

lemmas socket_defs =
  empty_io_def ann_def bob_def phone_def laptop_def tablet_def budget_doc_def home_chat_def
  collab_io_def chat_io_def

lemmas handler_defs =
  serve_def on_socket_def connected_def on_connection_def on_disconnect_def collab_join_def
  collab_leave_def collab_highlight_def advance_def fire_def join_room_def leave_room_def
  collab_room_def chat_room_def tmpl_def truthy_def hasAccess_def presence_def person_def
  collaborators_def error_event_def opt_str_def

lemmas example_defs =
  quiet_env_def empty_db_def blank_request_def as_user_def mk_user_def mk_member_def
  mk_invitation_def four_members_def house_db_def full_db_def lapsed_db_def
  ascii_lower_def ascii_trim_def ascii_space_def

lemmas invite_defs =
  invite_route_def invite_gate_def and_then_def bind_param_def authenticateJWT_def
  authorize_def checkHouseholdMembership_def find_membership_def checkUserCap_def
  cap_household_def js_or_def truthy_def invite_handler_def inv_find_user_def
  inv_find_member_def reactivate_def with_default_def active_count_def active_members_def
  max_users_def respond_def error_response_def cap_rejection_def

section \<open>Registration without a household id\<close>

lemma cap_household_none:
  assumes "\<not> truthy (body r ''householdId'')" "\<not> truthy (params r ''householdId'')"
    and "\<forall>u. user r = Some u \<longrightarrow> \<not> truthy (ru_householdId u)"
  shows "\<not> truthy (cap_household r)"
  using assms by (cases "user r") (auto simp: cap_household_def js_or_def truthy_def)

text \<open>
  Claim C9. A registration request that carries no household id, neither in the body,
  nor in the route parameters, nor on an authenticated user, is answered by
  \<^verbatim>\<open>checkUserCap\<close> with status 400 and \<^verbatim>\<open>{error: 'Household ID is required'}\<close>. The
  registration handler does not run: the store is unchanged (no user, household or
  membership row) and no mail is sent. This holds whatever the store contains and
  whichever calls would fail, and also for a user who has no household yet.
\<close>

theorem register_without_household_rejected:
  assumes "\<not> truthy (body r ''householdId'')"
    and "\<not> truthy (params r ''householdId'')"
    and "\<forall>u. user r = Some u \<longrightarrow> \<not> truthy (ru_householdId u)"
  shows "register_route e d r = (error_response 400 ''Household ID is required'', d, [])"
proof -
  have "\<not> truthy (cap_household r)"
    using assms by (rule cap_household_none)
  then have "checkUserCap e d r = Answer (error_response 400 ''Household ID is required'')"
    by (simp add: checkUserCap_def Let_def)
  then show ?thesis
    by (simp add: register_route_def)
qed

text \<open>Had the handler run on that request, it would have created the three rows.\<close>

lemma signup_handler_creates_rows:
  "(case register_handler quiet_env empty_db signup_request of (res, d, fx) \<Rightarrow>
      status res = 201 \<and> map u_email (users d) = [''ann@example.org'']
      \<and> map h_owner_id (households d) = [''user-new'']
      \<and> map m_household_id (household_members d) = [''household-new''])"
  by (simp add: register_handler_def signup_request_def blank_request_def quiet_env_def
      empty_db_def truthy_def reg_existing_def new_user_def new_household_def owner_member_def
      respond_def ascii_lower_def Let_def)

theorem register_without_household_rejected_witness:
  "\<not> truthy (body signup_request ''householdId'')
   \<and> \<not> truthy (params signup_request ''householdId'')
   \<and> user signup_request = None
   \<and> register_route quiet_env empty_db signup_request
       = (error_response 400 ''Household ID is required'', empty_db, [])"
proof -
  have a: "\<not> truthy (body signup_request ''householdId'')"
    by (simp add: signup_request_def blank_request_def truthy_def)
  have b: "\<not> truthy (params signup_request ''householdId'')"
    by (simp add: signup_request_def blank_request_def truthy_def)
  have c: "\<forall>u. user signup_request = Some u \<longrightarrow> \<not> truthy (ru_householdId u)"
    by (simp add: signup_request_def blank_request_def)
  have n: "user signup_request = None"
    by (simp add: signup_request_def blank_request_def)
  show ?thesis
    using a b n register_without_household_rejected [OF a b c, of quiet_env empty_db]
    by simp
qed


section \<open>Accepting an invitation at the cap\<close>

text \<open>The stores an accept request can leave behind, for every lookup.\<close>

lemma accept_handler_outcomes:
  "accept_handler lookup e d iid u = (pc, d') \<Longrightarrow>
     d' = d
   \<or> (\<exists>invitation. lookup e d iid = Some invitation \<and>
        d' = d\<lparr>household_members :=
                 household_members d @ [accepted_member e (u_id u) invitation]\<rparr>)
   \<or> (\<exists>invitation. lookup e d iid = Some invitation \<and>
        d' = d\<lparr>household_members :=
                 household_members d @ [accepted_member e (u_id u) invitation],
               household_invitations :=
                 map (mark_accepted e iid) (household_invitations d)\<rparr>)"
  by (auto simp: accept_handler_def canAddUserToHousehold_def Let_def
      split: if_splits option.splits)

lemma accept_handler_denied:
  assumes "\<not> throws e AccFindInvitation" "\<not> throws e AccCount"
    and "lookup e d iid = Some invitation"
    and "u_email u = i_email invitation"
    and "max_users e \<le> active_count d (i_household_id invitation)"
  shows "accept_handler lookup e d iid u =
     (AccDone (accept_rejection
        \<lparr>canAdd = False, currentUsers = active_count d (i_household_id invitation),
         capMaxUsers = max_users e,
         remainingSlots = max_users e - active_count d (i_household_id invitation)\<rparr>) [], d)"
  using assms
  by (simp add: accept_handler_def canAddUserToHousehold_def Let_def)

lemma accept_route_outcomes:
  assumes "accept_route lookup e d iid r = (pc, d')"
  shows "household_invitations d' \<noteq> household_invitations d \<longrightarrow>
      (\<exists>m. household_members d' = household_members d @ [m] \<and> m_is_active m)"
proof (cases "authenticateJWT e r")
  case (Answer res)
  with assms show ?thesis by (simp add: accept_route_def)
next
  case (Next r')
  with assms have "accept_handler lookup e d iid (ru_row (the (user r'))) = (pc, d')"
    by (simp add: accept_route_def)
  from accept_handler_outcomes [OF this] show ?thesis
    by (auto simp: accepted_member_def)
qed

text \<open>
  Claim C3, for the accept handler with its malformed first statement repaired, and
  for every lookup the repair may give. When the request is authenticated, the lookup
  hands the handler an invitation for the user's email, and the household has no free
  slot, the request is answered with the admission error (status 403, error
  \<^verbatim>\<open>User limit reached\<close>) and the store is left exactly as it was: no membership row
  is inserted and no invitation row is touched, so under the reading
  \<open>find_invitation\<close> the invitation is still the pending one. And for every accept
  request, whatever its outcome: if the invitations table changed at all (the
  invitation was marked accepted), then an active membership row was appended.
\<close>

theorem accept_denied_keeps_invitation_pending:
  "(authenticateJWT e r = Next r'
      \<and> \<not> throws e AccFindInvitation \<and> \<not> throws e AccCount
      \<and> lookup e d iid = Some invitation
      \<and> u_email (ru_row (the (user r'))) = i_email invitation
      \<and> \<not> active_count d (i_household_id invitation) < max_users e
    \<longrightarrow> (\<exists>res. accept_route lookup e d iid r = (AccDone res [], d)
               \<and> status res = 403
               \<and> map_of (json res) ''error'' = Some (JStr ''User limit reached''))
        \<and> (lookup = find_invitation \<longrightarrow> i_status invitation = ''pending''))
   \<and> (\<forall>pc d'. accept_route lookup e d iid r = (pc, d')
         \<and> household_invitations d' \<noteq> household_invitations d
       \<longrightarrow> (\<exists>m. household_members d' = household_members d @ [m] \<and> m_is_active m))"
proof (intro conjI impI allI)
  assume h: "authenticateJWT e r = Next r'
      \<and> \<not> throws e AccFindInvitation \<and> \<not> throws e AccCount
      \<and> lookup e d iid = Some invitation
      \<and> u_email (ru_row (the (user r'))) = i_email invitation
      \<and> \<not> active_count d (i_household_id invitation) < max_users e"
  then have "accept_route lookup e d iid r = (AccDone (accept_rejection
        \<lparr>canAdd = False, currentUsers = active_count d (i_household_id invitation),
         capMaxUsers = max_users e,
         remainingSlots = max_users e - active_count d (i_household_id invitation)\<rparr>) [], d)"
    using accept_handler_denied [of e lookup d iid invitation "ru_row (the (user r'))"]
    by (simp add: accept_route_def)
  then show "\<exists>res. accept_route lookup e d iid r = (AccDone res [], d)
               \<and> status res = 403
               \<and> map_of (json res) ''error'' = Some (JStr ''User limit reached'')"
    by (simp add: accept_rejection_def respond_def)
  assume "lookup = find_invitation"
  with h have "find_invitation e d iid = Some invitation" by simp
  then show "i_status invitation = ''pending''"
    unfolding find_invitation_def by (auto simp: find_Some_iff)
next
  fix pc d'
  assume "accept_route lookup e d iid r = (pc, d')
    \<and> household_invitations d' \<noteq> household_invitations d"
  then show "\<exists>m. household_members d' = household_members d @ [m] \<and> m_is_active m"
    using accept_route_outcomes by blast
qed

theorem accept_denied_keeps_invitation_pending_witness:
  "authenticateJWT quiet_env (as_user (mk_user ''u6'' ''u6@x.org'' ''user''))
     = Next ((as_user (mk_user ''u6'' ''u6@x.org'' ''user''))
         \<lparr>user := Some \<lparr>ru_row = mk_user ''u6'' ''u6@x.org'' ''user'', ru_householdId = None\<rparr>\<rparr>)
   \<and> find_invitation quiet_env full_db ''i6'' = Some (mk_invitation ''i6'' ''h1'' ''u6@x.org'')
   \<and> \<not> active_count full_db ''h1'' < max_users quiet_env
   \<and> map_option status (accept_answer (fst
        (accept_route find_invitation quiet_env full_db ''i6''
           (as_user (mk_user ''u6'' ''u6@x.org'' ''user''))))) = Some 403
   \<and> snd (accept_route find_invitation quiet_env full_db ''i6''
           (as_user (mk_user ''u6'' ''u6@x.org'' ''user''))) = full_db
   \<and> i_status (mk_invitation ''i6'' ''h1'' ''u6@x.org'') = ''pending''
   \<and> household_invitations
        (snd (accept_route find_invitation quiet_env (house_db four_members) ''i5''
               (as_user (mk_user ''u5'' ''u5@x.org'' ''user''))))
       \<noteq> household_invitations (house_db four_members)
   \<and> (\<exists>m. household_members
             (snd (accept_route find_invitation quiet_env (house_db four_members) ''i5''
                    (as_user (mk_user ''u5'' ''u5@x.org'' ''user''))))
           = household_members (house_db four_members) @ [m] \<and> m_is_active m)"
proof -
  let ?u6 = "mk_user ''u6'' ''u6@x.org'' ''user''"
  let ?u5 = "mk_user ''u5'' ''u5@x.org'' ''user''"
  let ?r' = "(as_user ?u6)\<lparr>user := Some \<lparr>ru_row = ?u6, ru_householdId = None\<rparr>\<rparr>"
  let ?i6 = "mk_invitation ''i6'' ''h1'' ''u6@x.org''"
  have a: "authenticateJWT quiet_env (as_user ?u6) = Next ?r'"
    by (simp add: authenticateJWT_def example_defs)
  have b: "find_invitation quiet_env full_db ''i6'' = Some ?i6"
    by (simp add: find_invitation_def example_defs)
  have c: "\<not> active_count full_db ''h1'' < max_users quiet_env"
    by (simp add: active_count_def active_members_def max_users_def example_defs)
  have t: "\<not> throws quiet_env AccFindInvitation" "\<not> throws quiet_env AccCount"
    by (simp_all add: quiet_env_def)
  have m: "u_email (ru_row (the (user ?r'))) = i_email ?i6" "i_household_id ?i6 = ''h1''"
    by (simp_all add: example_defs)
  from accept_denied_keeps_invitation_pending
         [where lookup = find_invitation and e = quiet_env and r = "as_user ?u6" and r' = "?r'"
            and d = full_db and iid = "''i6''" and invitation = "?i6"]
       a b c t m
  have r1: "\<exists>res. accept_route find_invitation quiet_env full_db ''i6'' (as_user ?u6)
                = (AccDone res [], full_db) \<and> status res = 403"
    and p: "i_status ?i6 = ''pending''"
    by auto
  from r1 have s1: "map_option status (accept_answer (fst
        (accept_route find_invitation quiet_env full_db ''i6'' (as_user ?u6)))) = Some 403"
    and s2: "snd (accept_route find_invitation quiet_env full_db ''i6'' (as_user ?u6)) = full_db"
    by (auto simp: accept_answer_def)
  have run5: "household_invitations
        (snd (accept_route find_invitation quiet_env (house_db four_members) ''i5''
               (as_user ?u5)))
       \<noteq> household_invitations (house_db four_members)"
    by (simp add: accept_route_def authenticateJWT_def accept_handler_def find_invitation_def
        canAddUserToHousehold_def active_count_def active_members_def max_users_def
        mark_accepted_def Let_def example_defs)
  from accept_denied_keeps_invitation_pending
         [where lookup = find_invitation and e = quiet_env and r = "as_user ?u5"
            and d = "house_db four_members" and iid = "''i5''"] run5
  have r2: "\<exists>m. household_members
             (snd (accept_route find_invitation quiet_env (house_db four_members) ''i5''
                    (as_user ?u5)))
           = household_members (house_db four_members) @ [m] \<and> m_is_active m"
    by (metis prod.collapse)
  from a b c s1 s2 p run5 r2 show ?thesis
    by (intro conjI)
qed

section \<open>The body of an admission rejection\<close>

text \<open>A rejection by \<^verbatim>\<open>checkUserCap\<close> carries both counts.\<close>

lemma cap_rejection_has_counts:
  assumes "checkUserCap e d r = Answer res" "status res = 403"
  shows "\<exists>hid. cap_household r = Some hid
         \<and> map_of (json res) ''error'' = Some (JStr ''User limit reached'')
         \<and> map_of (json res) ''currentUsers'' = Some (JNum (active_count d hid))
         \<and> map_of (json res) ''maxUsers'' = Some (JNum (max_users e))"
  using assms
  by (cases "cap_household r")
     (auto simp: checkUserCap_def cap_rejection_def respond_def error_response_def Let_def
        truthy_def split: if_splits)

text \<open>
  Claim C2, for the accept handler with its malformed first statement repaired, and
  for every lookup the repair may give. When the lookup hands the handler an
  invitation for the user's email and the household has no free slot, lines 158 to
  163 answer with status 403 and a body that has exactly the two properties
  \<^verbatim>\<open>error\<close> (\<^verbatim>\<open>User limit reached\<close>) and \<^verbatim>\<open>message\<close>: the properties \<^verbatim>\<open>currentUsers\<close>
  and \<^verbatim>\<open>maxUsers\<close>, which the claim requires of every admission rejection and which
  \<^verbatim>\<open>checkUserCap\<close> sends, are absent.
\<close>

theorem accept_rejection_lacks_counts:
  assumes "\<not> throws e AccFindInvitation" "\<not> throws e AccCount"
    and "lookup e d iid = Some invitation"
    and "u_email u = i_email invitation"
    and "\<not> active_count d (i_household_id invitation) < max_users e"
  shows "\<exists>res. accept_handler lookup e d iid u = (AccDone res [], d)
     \<and> status res = 403
     \<and> map fst (json res) = [''error'', ''message'']
     \<and> map_of (json res) ''error'' = Some (JStr ''User limit reached'')
     \<and> map_of (json res) ''currentUsers'' = None
     \<and> map_of (json res) ''maxUsers'' = None"
  using assms accept_handler_denied [of e lookup d iid invitation u]
  by (simp add: accept_rejection_def respond_def)

theorem accept_rejection_lacks_counts_witness:
  "find_invitation quiet_env full_db ''i6'' = Some (mk_invitation ''i6'' ''h1'' ''u6@x.org'')
   \<and> active_count full_db ''h1'' = 5 \<and> max_users quiet_env = 5
   \<and> accept_answer (fst (accept_route find_invitation quiet_env full_db ''i6''
        (as_user (mk_user ''u6'' ''u6@x.org'' ''user''))))
       = Some (respond 403 [(''error'', JStr ''User limit reached''),
            (''message'', JStr ''Maximum 5 users allowed per household.'')])
   \<and> (\<exists>res. accept_handler find_invitation quiet_env full_db ''i6''
               (mk_user ''u6'' ''u6@x.org'' ''user'') = (AccDone res [], full_db)
         \<and> status res = 403
         \<and> map fst (json res) = [''error'', ''message'']
         \<and> map_of (json res) ''error'' = Some (JStr ''User limit reached'')
         \<and> map_of (json res) ''currentUsers'' = None
         \<and> map_of (json res) ''maxUsers'' = None)"
proof -
  let ?u6 = "mk_user ''u6'' ''u6@x.org'' ''user''"
  let ?i6 = "mk_invitation ''i6'' ''h1'' ''u6@x.org''"
  have b: "find_invitation quiet_env full_db ''i6'' = Some ?i6"
    by (simp add: find_invitation_def example_defs)
  have c: "active_count full_db ''h1'' = 5" "max_users quiet_env = 5"
    by (simp_all add: active_count_def active_members_def max_users_def example_defs)
  have t: "\<not> throws quiet_env AccFindInvitation" "\<not> throws quiet_env AccCount"
    by (simp_all add: quiet_env_def)
  have m: "u_email ?u6 = i_email ?i6"
    by (simp add: example_defs)
  have f: "\<not> active_count full_db (i_household_id ?i6) < max_users quiet_env"
    by (simp add: c mk_invitation_def)
  from accept_rejection_lacks_counts
         [where lookup = find_invitation and e = quiet_env and d = full_db and iid = "''i6''"
            and invitation = "?i6" and u = "?u6", OF t b m f]
  have g: "\<exists>res. accept_handler find_invitation quiet_env full_db ''i6'' ?u6
               = (AccDone res [], full_db)
         \<and> status res = 403
         \<and> map fst (json res) = [''error'', ''message'']
         \<and> map_of (json res) ''error'' = Some (JStr ''User limit reached'')
         \<and> map_of (json res) ''currentUsers'' = None
         \<and> map_of (json res) ''maxUsers'' = None" .
  have r: "accept_answer (fst (accept_route find_invitation quiet_env full_db ''i6''
        (as_user ?u6)))
       = Some (respond 403 [(''error'', JStr ''User limit reached''),
            (''message'', JStr ''Maximum 5 users allowed per household.'')])"
    by (simp add: accept_route_def authenticateJWT_def accept_handler_def find_invitation_def
        canAddUserToHousehold_def active_count_def active_members_def max_users_def
        accept_rejection_def show_int_def digits.simps respond_def accept_answer_def Let_def
        example_defs)
  from b c r g show ?thesis
    by (intro conjI)
qed

section \<open>The member cap\<close>

text \<open>The invite route is its two steps run back to back.\<close>

lemma invite_steps_alone:
  "(case invite_step e hid (InvStart r) d of (p1, d1) \<Rightarrow> invite_step e hid p1 d1)
   = (case invite_route e d hid r of (res, d', fx) \<Rightarrow> (InvDone res fx, d'))"
  by (simp add: invite_route_def split: middleware.splits prod.splits)

text \<open>
  Claim C1 fails on the invite route, \<^verbatim>\<open>POST /:householdId/invite\<close>, whose text is
  well-formed, in two ways; \<^verbatim>\<open>maxUsers\<close> is 5 in both.

  One request, no concurrency. \<^verbatim>\<open>checkUserCap\<close> counts the household named in the
  body when there is one (\<^verbatim>\<open>req.body.householdId || req.params.householdId\<close>), the
  handler reactivates in the household named in the path. Household \<open>h1\<close> has five
  active members; its admin invites the inactive \<open>u6\<close> with \<^verbatim>\<open>householdId: 'h2'\<close> in the
  body: the answer is 200 and \<open>h1\<close> has six active members.

  Two requests in flight. Household \<open>h1\<close> has four active members and inactive rows
  for \<open>u5\<close> and \<open>u6\<close>. Both invite requests pass the cap check before either handler
  writes: both checks record 4 of 5 and the store is unchanged; then both handlers
  reactivate, both answer 200, and \<open>h1\<close> has six active members.
\<close>

theorem invite_route_exceeds_cap:
  "max_users quiet_env = 5
   \<and> active_count full_lapsed_db ''h1'' = 5
   \<and> (case invite_route quiet_env full_lapsed_db ''h1'' bypass_request of (res, d, fx) \<Rightarrow>
        status res = 200 \<and> active_count d ''h1'' = 6)
   \<and> active_count two_lapsed_db ''h1'' = 4
   \<and> (case run_invites [0, 1] (inviting, two_lapsed_db) of (ts, d) \<Rightarrow>
        map (\<lambda>t. checked_counts (v_pc t)) ts = [Some (4, 5), Some (4, 5)]
        \<and> d = two_lapsed_db)
   \<and> (case run_invites [0, 1, 0, 1] (inviting, two_lapsed_db) of (ts, d) \<Rightarrow>
        map (\<lambda>t. map_option status (invite_answer (v_pc t))) ts = [Some 200, Some 200]
        \<and> active_count d ''h1'' = 6)"
proof (intro conjI)
  show "max_users quiet_env = 5"
    by (simp add: max_users_def quiet_env_def)
  show "active_count full_lapsed_db ''h1'' = 5"
    by (simp add: active_count_def active_members_def full_lapsed_db_def example_defs)
  show "case invite_route quiet_env full_lapsed_db ''h1'' bypass_request of (res, d, fx) \<Rightarrow>
        status res = 200 \<and> active_count d ''h1'' = 6"
    by (simp add: invite_defs bypass_request_def full_lapsed_db_def example_defs Let_def)
  show "active_count two_lapsed_db ''h1'' = 4"
    by (simp add: active_count_def active_members_def two_lapsed_db_def example_defs)
  show "case run_invites [0, 1] (inviting, two_lapsed_db) of (ts, d) \<Rightarrow>
        map (\<lambda>t. checked_counts (v_pc t)) ts = [Some (4, 5), Some (4, 5)]
        \<and> d = two_lapsed_db"
    by (simp add: invite_defs inviting_def invite_for_def two_lapsed_db_def checked_counts_def
        example_defs Let_def)
  show "case run_invites [0, 1, 0, 1] (inviting, two_lapsed_db) of (ts, d) \<Rightarrow>
        map (\<lambda>t. map_option status (invite_answer (v_pc t))) ts = [Some 200, Some 200]
        \<and> active_count d ''h1'' = 6"
    by (simp add: invite_defs inviting_def invite_for_def two_lapsed_db_def invite_answer_def
        example_defs Let_def)
qed

text \<open>
  The accept handler has the same shape at lines 157 to 175: the count and the insert
  are separate awaits. Served alone, an accept request keeps every household within
  the cap, for every lookup; under the reading \<open>find_invitation\<close> two accept requests
  in flight against four active members both pass the count and leave six.
\<close>

lemma accept_alone_within_cap:
  assumes "accept_handler lookup e d iid u = (pc, d')" "active_count d h \<le> max_users e"
  shows "active_count d' h \<le> max_users e"
  using assms
  by (auto simp: accept_handler_def canAddUserToHousehold_def Let_def active_count_def
      active_members_def accepted_member_def split: if_splits option.splits)

lemma accepts_in_flight_exceed_cap:
  "active_count (house_db four_members) ''h1'' = 4 \<and> max_users quiet_env = 5
   \<and> (case run_schedule find_invitation [0, 1, 0, 1] (racing, house_db four_members) of
        (ts, d) \<Rightarrow>
        map (\<lambda>t. case t_pc t of AccAdmitted i c \<Rightarrow> (canAdd c, remainingSlots c)
                               | _ \<Rightarrow> (False, 0)) ts = [(True, 1), (True, 1)])
   \<and> (case run_schedule find_invitation [0, 1, 0, 1, 0, 1, 0, 1]
             (racing, house_db four_members) of
        (ts, d) \<Rightarrow>
        active_count d ''h1'' = 6
        \<and> map (\<lambda>t. case t_pc t of AccDone res fx \<Rightarrow> status res | _ \<Rightarrow> 0) ts = [200, 200])"
  by (simp add: racing_def find_invitation_def canAddUserToHousehold_def active_count_def
      active_members_def max_users_def accepted_member_def mark_accepted_def respond_def
      Let_def example_defs)

section \<open>Reactivating an inactive member\<close>


text \<open>
  So does the admin of a household whose users row has the role \<^verbatim>\<open>user\<close>, the role
  that registration gives: \<^verbatim>\<open>authorize(['admin'])\<close> reads \<^verbatim>\<open>req.user.role\<close>.
\<close>

lemma household_admin_with_role_user_is_refused:
  "(case invite_route quiet_env lapsed_db ''h1''
           ((invite_for ''u5@x.org'')\<lparr>bearer := PassportUser (mk_user ''u1'' ''u1@x.org'' ''user'')\<rparr>)
    of (res, d, fx) \<Rightarrow>
      status res = 403
      \<and> map_of (json res) ''error'' = Some (JStr ''Insufficient permissions'')
      \<and> d = lapsed_db \<and> fx = [])"
  by (simp add: invite_defs invite_for_def example_defs Let_def)

text \<open>A request that the middleware answers changes nothing.\<close>

lemma invite_refused_changes_nothing:
  assumes "invite_gate e d (bind_param ''householdId'' hid r) = Answer res"
  shows "invite_route e d hid r = (res, d, [])"
  using assms by (simp add: invite_route_def)



section \<open>Presence events\<close>

text \<open>A connection attempt emits the online event exactly when the handshake succeeds.\<close>

lemma connect_socket_online:
  "length (emissions ''user:online'' (snd (connect_socket t rejects d sid tok st)))
     = (case handshake t rejects d tok of Inl err \<Rightarrow> 0 | Inr u \<Rightarrow> 1)"
  by (simp add: connect_socket_def on_connection_def emissions_def Let_def split: sum.splits)

text \<open>
  Claim C7. Presence is announced per connection. Every connection emits exactly one
  \<^verbatim>\<open>user:online\<close> event, addressed to all other sockets, whatever sockets are already
  connected, and no other event of the server emits one; every disconnection of a
  connected socket emits exactly one \<^verbatim>\<open>user:offline\<close> event, and nothing else does.
  With two sockets of the same user: two online events, and the first disconnection
  emits one offline event for the user while the second socket is still connected.
\<close>

theorem presence_per_connection:
  "length (emissions ''user:online'' (snd (serve e ev (st, d))))
     = (case ev of Connect sk \<Rightarrow> 1 | _ \<Rightarrow> 0)
   \<and> length (emissions ''user:offline'' (snd (serve e ev (st, d))))
     = (case ev of Disconnect sid \<Rightarrow> (case connected st sid of None \<Rightarrow> 0 | Some sk \<Rightarrow> 1)
                 | _ \<Rightarrow> 0)
   \<and> emissions ''user:online'' (snd (on_connection sk st))
       = [Emit (ToAllExcept (sk_id sk)) ''user:online'' (presence st sk)]
   \<and> emissions ''user:offline'' (snd (on_disconnect sk st))
       = [Emit (ToAllExcept (sk_id sk)) ''user:offline'' (presence st sk)]
   \<and> (case run e [Connect phone, Connect laptop, Disconnect ''s1''] (empty_io, d) of
        ((st', d'), trace) \<Rightarrow>
          map (emissions ''user:online'') trace =
            [[Emit (ToAllExcept ''s1'') ''user:online'' (presence empty_io phone)],
             [Emit (ToAllExcept ''s2'') ''user:online'' (presence empty_io laptop)],
             []]
          \<and> map (emissions ''user:offline'') trace =
            [[], [], [Emit (ToAllExcept ''s1'') ''user:offline'' (presence empty_io phone)]]
          \<and> map (\<lambda>s. (sk_id s, su_id (sk_user s))) (sockets st') = [(''s2'', ''u1'')]
          \<and> su_id (sk_user phone) = su_id (sk_user laptop))"
proof (intro conjI)
  show "length (emissions ''user:online'' (snd (serve e ev (st, d))))
     = (case ev of Connect sk \<Rightarrow> 1 | _ \<Rightarrow> 0)"
    by (cases ev)
       (auto simp: serve_def on_socket_def emissions_def on_connection_def on_disconnect_def
          collab_join_def collab_leave_def collab_highlight_def chat_join_def chat_message_def
          sendRecentMessages_def sendChatNotifications_def advance_def fire_def error_event_def
          Let_def filter_concat comp_def split: option.splits prod.splits if_splits)
  show "length (emissions ''user:offline'' (snd (serve e ev (st, d))))
     = (case ev of Disconnect sid \<Rightarrow> (case connected st sid of None \<Rightarrow> 0 | Some sk \<Rightarrow> 1)
                 | _ \<Rightarrow> 0)"
    by (cases ev)
       (auto simp: serve_def on_socket_def emissions_def on_connection_def on_disconnect_def
          collab_join_def collab_leave_def collab_highlight_def chat_join_def chat_message_def
          sendRecentMessages_def sendChatNotifications_def advance_def fire_def error_event_def
          Let_def filter_concat comp_def split: option.splits prod.splits if_splits)
  show "emissions ''user:online'' (snd (on_connection sk st))
       = [Emit (ToAllExcept (sk_id sk)) ''user:online'' (presence st sk)]"
    by (simp add: on_connection_def emissions_def Let_def)
  show "emissions ''user:offline'' (snd (on_disconnect sk st))
       = [Emit (ToAllExcept (sk_id sk)) ''user:offline'' (presence st sk)]"
    by (simp add: on_disconnect_def emissions_def Let_def)
  show "case run e [Connect phone, Connect laptop, Disconnect ''s1''] (empty_io, d) of
        ((st', d'), trace) \<Rightarrow>
          map (emissions ''user:online'') trace =
            [[Emit (ToAllExcept ''s1'') ''user:online'' (presence empty_io phone)],
             [Emit (ToAllExcept ''s2'') ''user:online'' (presence empty_io laptop)],
             []]
          \<and> map (emissions ''user:offline'') trace =
            [[], [], [Emit (ToAllExcept ''s1'') ''user:offline'' (presence empty_io phone)]]
          \<and> map (\<lambda>s. (sk_id s, su_id (sk_user s))) (sockets st') = [(''s2'', ''u1'')]
          \<and> su_id (sk_user phone) = su_id (sk_user laptop)"
    by (simp add: handler_defs socket_defs emissions_def Let_def)
qed

section \<open>Joining rooms\<close>

text \<open>
  The households of a session are those in which its user had an active membership,
  the household itself being active, when the socket connected.
\<close>

lemma handshake_households:
  assumes "handshake t rejects d tok = Inr u"
  shows "sh_id ` set (su_households u) =
     {m_household_id m | m. m \<in> set (household_members d) \<and> m_user_id m = su_id u
        \<and> m_is_active m
        \<and> (\<exists>h \<in> set (households d). h_id h = m_household_id m \<and> h_is_active h)}"
  using assms
  by (auto simp: handshake_def session_households_def image_iff
      split: token.splits if_splits option.splits) force+

text \<open>
  \<^verbatim>\<open>collab:join\<close> does check, when the request names a household: a request with a
  document type and id that names a household outside the session's households gets
  the error \<^verbatim>\<open>Access denied to this household\<close> and joins nothing; one that names a
  household of the session, or no household, joins the document room.
\<close>

lemma collab_join_checks_named_household:
  assumes "truthy (documentType data)" "truthy (documentId data)"
  shows "(truthy (householdId data) \<and> \<not> hasAccess sk (the (householdId data)) \<longrightarrow>
            collab_join sk data st
              = (st, [error_event (sk_id sk) ''Access denied to this household'']))
       \<and> (truthy (householdId data) \<and> hasAccess sk (the (householdId data)) \<longrightarrow>
            sk_id sk \<in> set (rooms (fst (collab_join sk data st)) (collab_room data))
            \<and> emissions ''error'' (snd (collab_join sk data st)) = [])
       \<and> (\<not> truthy (householdId data) \<longrightarrow>
            sk_id sk \<in> set (rooms (fst (collab_join sk data st)) (collab_room data))
            \<and> emissions ''error'' (snd (collab_join sk data st)) = [])
       \<and> (hasAccess sk hid \<longleftrightarrow> hid \<in> sh_id ` set (su_households (sk_user sk)))"
  using assms
  by (auto simp: collab_join_def join_room_def emissions_def hasAccess_def Let_def)

lemma collab_join_denies_outsider:
  "collab_join guest (budget_doc\<lparr>householdId := Some ''h1''\<rparr>) empty_io
     = (empty_io,
        [Emit (ToSocket ''s3'') ''error''
           (JObj [(''message'', JStr ''Access denied to this household'')])])"
  by (simp add: handler_defs socket_defs guest_def visitor_def)

text \<open>
  Claim C4 fails on \<^verbatim>\<open>chat:join\<close>, which checks nothing. Household \<open>h1\<close> is active and
  has one active member, \<open>u1\<close>. The handshake of \<open>u2\<close> succeeds and loads no household.
  The socket sends \<^verbatim>\<open>chat:join\<close> for the chat room of household \<open>h1\<close>: it is joined to
  \<^verbatim>\<open>chat:household:h1\<close>, no error is emitted, and it is sent the three stored messages
  of the room.
\<close>

theorem chat_join_ignores_membership:
  "map h_id (filter h_is_active (households home_db)) = [''h1'']
   \<and> map m_user_id (filter (\<lambda>m. m_household_id m = ''h1'' \<and> m_is_active m)
        (household_members home_db)) = [''u1'']
   \<and> handshake 0 (\<lambda>c. False) home_db (Token ''u2'') = Inr visitor
   \<and> su_households visitor = []
   \<and> (case run quiet_env [Connect guest, ChatJoin ''s3'' home_chat] (empty_io, home_db) of
        ((st, d), trace) \<Rightarrow>
          rooms st ''chat:household:h1'' = [''s3'']
          \<and> map (emissions ''error'') trace = [[], []]
          \<and> map (field ''id'') (sent_history (last trace))
              = [Some (JStr ''c1''), Some (JStr ''c2''), Some (JStr ''c3'')]
          \<and> map (field ''message'') (sent_history (last trace))
              = [Some (JStr ''first''), Some (JStr ''second''), Some (JStr ''third'')])"
proof (intro conjI)
  show "map h_id (filter h_is_active (households home_db)) = [''h1'']"
    by (simp add: home_db_def)
  show "map m_user_id (filter (\<lambda>m. m_household_id m = ''h1'' \<and> m_is_active m)
        (household_members home_db)) = [''u1'']"
    by (simp add: home_db_def mk_member_def)
  show "handshake 0 (\<lambda>c. False) home_db (Token ''u2'') = Inr visitor"
    by (simp add: handshake_def session_households_def home_db_def chat_db_def empty_db_def
        mk_user_def mk_member_def visitor_def)
  show "su_households visitor = []"
    by (simp add: visitor_def)
  show "case run quiet_env [Connect guest, ChatJoin ''s3'' home_chat] (empty_io, home_db) of
        ((st, d), trace) \<Rightarrow>
          rooms st ''chat:household:h1'' = [''s3'']
          \<and> map (emissions ''error'') trace = [[], []]
          \<and> map (field ''id'') (sent_history (last trace))
              = [Some (JStr ''c1''), Some (JStr ''c2''), Some (JStr ''c3'')]
          \<and> map (field ''message'') (sent_history (last trace))
              = [Some (JStr ''first''), Some (JStr ''second''), Some (JStr ''third'')]"
    by (simp add: handler_defs socket_defs guest_def visitor_def emissions_def chat_join_def
        sendRecentMessages_def recent_rows_def joined_messages_def room_messages_def
        author_def format_message_def col_str_def sent_history_def field_def quiet_env_def
        home_db_def chat_db_def empty_db_def mk_chat_def mk_user_def
        Let_def List.map_filter_simps)
qed

section \<open>Chat history\<close>

lemma author_found:
  "(\<exists>u. author d m = Some u) \<longleftrightarrow> (\<exists>u \<in> set (users d). u_id u = c_user_id m)"
  using find_None_iff [of "\<lambda>u. u_id u = c_user_id m" "users d"]
  by (auto simp: author_def)

lemma joined_messages_are_room_history:
  "joined_messages d rt rid = map (\<lambda>m. (m, the (author d m))) (room_history d rt rid)"
proof -
  have "List.map_filter (\<lambda>m. map_option (\<lambda>u. (m, u)) (f m)) ms
      = map (\<lambda>m. (m, the (f m))) (filter (\<lambda>m. f m \<noteq> None) ms)"
    for f :: "chat_row \<Rightarrow> user_row option" and ms
    by (induction ms) (auto simp: List.map_filter_simps)
  then show ?thesis
    by (simp add: joined_messages_def room_messages_def room_history_def author_found
        conj_ac cong: conj_cong)
qed

lemma insort_key_paired:
  "insort_key (\<lambda>(m, u). k m) (x, g x) (map (\<lambda>m. (m, g m)) ys)
   = map (\<lambda>m. (m, g m)) (insort_key k x ys)"
  by (induction ys) auto

lemma sort_key_paired:
  "sort_key (\<lambda>(m, u). k m) (map (\<lambda>m. (m, g m)) xs) = map (\<lambda>m. (m, g m)) (sort_key k xs)"
  by (induction xs) (auto simp: insort_key_paired)

lemma rev_take_rev: "rev (take n (rev xs)) = last_n n xs"
  by (simp add: last_n_def rev_take)

lemma recent_rows_oldest_first:
  "rev (recent_rows d rt rid n)
     = map (\<lambda>m. (m, the (author d m))) (last_n n (oldest_first (room_history d rt rid)))"
proof -
  have "rev (recent_rows d rt rid n)
      = last_n n (map (\<lambda>m. (m, the (author d m))) (oldest_first (room_history d rt rid)))"
    by (simp add: recent_rows_def rev_take_rev sort_key_paired oldest_first_def
        joined_messages_are_room_history)
  then show ?thesis
    by (simp add: last_n_def drop_map)
qed

lemma set_last_n: "set (last_n n xs) \<subseteq> set xs"
  by (simp add: last_n_def set_drop_subset)

lemma format_message_is_history_entry:
  assumes "m \<in> set (room_history d rt rid)"
  shows "format_message rt rid (m, the (author d m)) = history_entry d m"
proof -
  from assms have "c_room_type m = rt" "c_room_id m = rid"
    and "\<exists>u \<in> set (users d). u_id u = c_user_id m"
    by (auto simp: room_history_def)
  then obtain u where "author d m = Some u"
    using author_found [of d m] by blast
  then show ?thesis
    using \<open>c_room_type m = rt\<close> \<open>c_room_id m = rid\<close>
    by (simp add: format_message_def history_entry_def author_def col_str_def)
qed

lemma sent_history_of_join:
  "\<not> throws e ChatHistory \<Longrightarrow>
   sent_history (snd (chat_join e d sk data st))
     = map (history_entry d)
         (last_n 50 (oldest_first (room_history d (roomType data) (roomId data))))"
proof -
  assume ok: "\<not> throws e ChatHistory"
  let ?ms = "last_n 50 (oldest_first (room_history d (roomType data) (roomId data)))"
  have "set ?ms \<subseteq> set (room_history d (roomType data) (roomId data))"
    using set_last_n [of 50 "oldest_first (room_history d (roomType data) (roomId data))"]
    by (simp add: oldest_first_def)
  then have "map (\<lambda>m. format_message (roomType data) (roomId data) (m, the (author d m))) ?ms
      = map (history_entry d) ?ms"
    by (intro map_cong refl format_message_is_history_entry) auto
  then show ?thesis
    using ok
    by (simp add: chat_join_def sendRecentMessages_def recent_rows_oldest_first
        sent_history_def field_def comp_def Let_def)
qed

text \<open>
  The claim as stated fails: the room holds three messages, and the history has two.
  The query joins the users table, so the message whose author has no users row is
  left out.
\<close>

theorem history_omits_orphan_message:
  "map c_id (filter (\<lambda>m. c_room_type m = ''household'' \<and> c_room_id m = ''h1'')
        (chat_messages orphan_db)) = [''c1'', ''c2'', ''c3'']
   \<and> \<not> throws quiet_env ChatHistory
   \<and> map (field ''id'') (sent_history (snd (chat_join quiet_env orphan_db phone home_chat empty_io)))
       = [Some (JStr ''c1''), Some (JStr ''c3'')]"
  by (simp add: chat_join_def sendRecentMessages_def recent_rows_def joined_messages_def
      room_messages_def author_def format_message_def col_str_def sent_history_def field_def
      quiet_env_def orphan_db_def empty_db_def mk_chat_def mk_user_def home_chat_def
      phone_def Let_def List.map_filter_simps)

text \<open>
  With a limit of two, the two most recent of three messages that were stored out of
  time order are sent, the older one first.
\<close>

lemma history_limit_two:
  "map (field ''id'')
     (sent_history (sendRecentMessages quiet_env chat_db phone ''household'' ''h1'' 2))
   = [Some (JStr ''c2''), Some (JStr ''c3'')]"
  by (simp add: sendRecentMessages_def recent_rows_def joined_messages_def room_messages_def
      author_def format_message_def col_str_def sent_history_def field_def chat_db_def
      mk_chat_def mk_user_def empty_db_def quiet_env_def phone_def
      List.map_filter_simps Let_def)

text \<open>
  Claim C5, as the code has it. When the history query succeeds, \<^verbatim>\<open>chat:join\<close> sends
  the joining socket one \<^verbatim>\<open>chat:history\<close> event for the room; when it fails, nothing
  is sent. The messages of the event are, in order, the last 50 by creation time,
  oldest first, of the stored messages of the room whose author has a row in the users
  table, each with its id, room, text, parent, creation time and author: all of them
  when there are at most 50, the 50 most recent otherwise.
\<close>

theorem chat_join_history:
  "(\<not> throws e ChatHistory \<longrightarrow>
      snd (chat_join e d sk data st) =
        [Emit (ToSocket (sk_id sk)) ''chat:history''
           (JObj [(''roomType'', JStr (roomType data)), (''roomId'', JStr (roomId data)),
                  (''messages'', JArr (map (history_entry d)
                      (last_n 50 (oldest_first
                         (room_history d (roomType data) (roomId data))))))])]
      \<and> length (sent_history (snd (chat_join e d sk data st)))
          = min 50 (length (room_history d (roomType data) (roomId data)))
      \<and> (\<exists>ms. sent_history (snd (chat_join e d sk data st)) = map (history_entry d) ms
               \<and> sorted (map c_created_at ms)
               \<and> set ms \<subseteq> set (room_history d (roomType data) (roomId data))
               \<and> (\<forall>m \<in> set (room_history d (roomType data) (roomId data)) - set ms.
                     \<forall>m' \<in> set ms. c_created_at m \<le> c_created_at m')))
   \<and> (throws e ChatHistory \<longrightarrow> snd (chat_join e d sk data st) = [])"
proof (intro conjI impI)
  let ?h = "room_history d (roomType data) (roomId data)"
  let ?ms = "last_n 50 (oldest_first ?h)"
  assume ok: "\<not> throws e ChatHistory"
  have sub: "set ?ms \<subseteq> set ?h"
    using set_last_n [of 50 "oldest_first ?h"] by (simp add: oldest_first_def)
  have fm: "map (\<lambda>m. format_message (roomType data) (roomId data) (m, the (author d m))) ?ms
      = map (history_entry d) ?ms"
    using sub by (intro map_cong refl format_message_is_history_entry) auto
  show "snd (chat_join e d sk data st) =
        [Emit (ToSocket (sk_id sk)) ''chat:history''
           (JObj [(''roomType'', JStr (roomType data)), (''roomId'', JStr (roomId data)),
                  (''messages'', JArr (map (history_entry d) ?ms))])]"
    using ok fm
    by (simp add: chat_join_def sendRecentMessages_def recent_rows_oldest_first comp_def
        Let_def)
  have sh: "sent_history (snd (chat_join e d sk data st)) = map (history_entry d) ?ms"
    using ok by (rule sent_history_of_join)
  show "length (sent_history (snd (chat_join e d sk data st))) = min 50 (length ?h)"
    by (simp add: sh last_n_def oldest_first_def)
  have srt: "sorted (map c_created_at (oldest_first ?h))"
    by (simp add: oldest_first_def)
  then have s1: "sorted (map c_created_at ?ms)"
    unfolding last_n_def drop_map [symmetric] by (rule sorted_wrt_drop)
  have older: "c_created_at m \<le> c_created_at m'"
    if "m \<in> set ?h - set ?ms" "m' \<in> set ?ms" for m m'
  proof -
    let ?xs = "oldest_first ?h"
    let ?k = "length ?xs - 50"
    have split: "?xs = take ?k ?xs @ ?ms"
      by (simp add: last_n_def)
    have "set ?xs = set ?h"
      by (simp add: oldest_first_def)
    with that(1) split have "m \<in> set (take ?k ?xs)"
      by (metis DiffD1 DiffD2 Un_iff set_append)
    moreover have "sorted (map c_created_at (take ?k ?xs) @ map c_created_at ?ms)"
      using srt split by (metis map_append)
    ultimately show ?thesis
      using that(2) by (auto simp: sorted_append)
  qed
  from sh s1 sub older
  show "\<exists>ms. sent_history (snd (chat_join e d sk data st)) = map (history_entry d) ms
               \<and> sorted (map c_created_at ms)
               \<and> set ms \<subseteq> set ?h
               \<and> (\<forall>m \<in> set ?h - set ms. \<forall>m' \<in> set ms. c_created_at m \<le> c_created_at m')"
    by blast
next
  assume "throws e ChatHistory"
  then show "snd (chat_join e d sk data st) = []"
    by (simp add: chat_join_def sendRecentMessages_def)
qed

theorem chat_join_history_witness:
  "\<not> throws quiet_env ChatHistory
   \<and> length (filter (\<lambda>m. c_room_type m = ''household'' \<and> c_room_id m = ''h1'')
        (chat_messages big_chat_db)) = 52
   \<and> room_history big_chat_db ''household'' ''h1'' = map numbered [0..<52]
   \<and> length (sent_history (snd (chat_join quiet_env big_chat_db phone home_chat empty_io))) = 50
   \<and> sent_history (snd (chat_join quiet_env big_chat_db phone home_chat empty_io))
       = map (history_entry big_chat_db) (map numbered [2..<52])
   \<and> map (field ''timestamp'')
        (sent_history (snd (chat_join quiet_env big_chat_db phone home_chat empty_io)))
       = map (\<lambda>n. Some (JTime n)) [2..<52]"
proof -
  have q: "\<not> throws quiet_env ChatHistory"
    by (simp add: quiet_env_def)
  have inroom: "c_room_type (numbered n) = ''household'' \<and> c_room_id (numbered n) = ''h1''
      \<and> c_user_id (numbered n) = ''u1'' \<and> c_created_at (numbered n) = n" for n
    by (simp add: numbered_def mk_chat_def)
  have keep: "filter (\<lambda>m. c_room_type m = ''household'' \<and> c_room_id m = ''h1'' \<and> P m)
        (map numbered xs) = map numbered xs" if "\<And>n. P (numbered n)" for P xs
    by (induction xs) (simp_all add: inroom that)
  have cm: "chat_messages big_chat_db = map numbered [0..<52]"
    "users big_chat_db = [mk_user ''u1'' ''ann@x.org'' ''user'']"
    unfolding big_chat_db_def empty_db_def by (simp_all only: db.simps)
  have all: "filter (\<lambda>m. c_room_type m = ''household'' \<and> c_room_id m = ''h1'')
        (chat_messages big_chat_db) = map numbered [0..<52]"
    using keep [of "\<lambda>m. True" "[0..<52]"] by (simp only: cm simp_thms)
  then have len: "length (filter (\<lambda>m. c_room_type m = ''household'' \<and> c_room_id m = ''h1'')
        (chat_messages big_chat_db)) = 52"
    by simp
  have au: "\<exists>u \<in> set [mk_user ''u1'' ''ann@x.org'' ''user'']. u_id u = c_user_id (numbered n)"
    for n
    by (simp add: inroom mk_user_def)
  have rh: "room_history big_chat_db ''household'' ''h1'' = map numbered [0..<52]"
    unfolding room_history_def cm
    by (rule keep) (rule au)
  have ct: "map c_created_at (map numbered xs) = xs" for xs
    by (induction xs) (simp_all add: inroom)
  have srt: "oldest_first (map numbered [0..<52]) = map numbered [0..<52]"
    unfolding oldest_first_def by (rule sort_key_id_if_sorted) (simp only: ct sorted_upt)
  have "length (map numbered [0..<52]) - 50 = 2"
    by simp
  then have "last_n 50 (map numbered [0..<52]) = map numbered (drop 2 [0..<52])"
    by (simp only: last_n_def drop_map)
  then have cut: "last_n 50 (map numbered [0..<52]) = map numbered [2..<52]"
    by (simp only: drop_upt add_0)
  have hc: "roomType home_chat = ''household''" "roomId home_chat = ''h1''"
    by (simp_all add: home_chat_def)
  from chat_join_history [where e = quiet_env and d = big_chat_db and sk = phone
      and data = home_chat and st = empty_io] q
  have "length (sent_history (snd (chat_join quiet_env big_chat_db phone home_chat empty_io)))
      = min 50 (length (room_history big_chat_db ''household'' ''h1''))"
    by (simp only: hc) blast
  then have l50: "length (sent_history
      (snd (chat_join quiet_env big_chat_db phone home_chat empty_io))) = 50"
    by (simp only: rh length_map length_upt)
  have sh: "sent_history (snd (chat_join quiet_env big_chat_db phone home_chat empty_io))
       = map (history_entry big_chat_db) (map numbered [2..<52])"
    using sent_history_of_join [OF q, of big_chat_db phone home_chat empty_io]
    by (simp only: hc rh srt cut)
  have ts: "map (field ''timestamp'') (map (history_entry big_chat_db) (map numbered xs))
      = map (\<lambda>n. Some (JTime n)) xs" for xs
    by (induction xs) (simp_all add: history_entry_def field_def inroom)
  have tsf: "map (field ''timestamp'')
        (sent_history (snd (chat_join quiet_env big_chat_db phone home_chat empty_io)))
       = map (\<lambda>n. Some (JTime n)) [2..<52]"
    unfolding sh by (rule ts)
  from q len rh l50 sh tsf show ?thesis
    by (intro conjI)
qed

section \<open>Sending a chat message\<close>

lemma distinct_count:
  "distinct xs \<Longrightarrow> length (filter (\<lambda>x. x = a) xs) = (if a \<in> set xs then 1 else 0)"
  by (induction xs) auto

text \<open>A room never lists a socket twice, from the empty server on.\<close>

lemma join_room_distinct:
  "distinct (rooms st r) \<Longrightarrow> distinct (rooms (join_room room sid st) r)"
  by (auto simp: join_room_def)

lemma fold_join_distinct:
  "distinct (rooms st r) \<Longrightarrow> distinct (rooms (fold (\<lambda>h. join_room (f h) sid) hs st) r)"
  by (induction hs arbitrary: st) (auto simp: join_room_distinct)

lemma serve_rooms_distinct:
  assumes "\<forall>r. distinct (rooms st r)" "serve e ev (st, d) = ((st', d'), acts)"
  shows "distinct (rooms st' r)"
proof (cases ev)
  case (Connect sk)
  have "distinct (rooms (st\<lparr>sockets := sockets st @ [sk]\<rparr>) r)" for r
    using assms(1) by simp
  then show ?thesis
    using assms(2) Connect
    by (auto simp: serve_def on_connection_def Let_def
        intro!: fold_join_distinct join_room_distinct)
next
  case (Advance t)
  then show ?thesis using assms by (auto simp: serve_def advance_def)
qed (use assms in \<open>auto simp: serve_def on_socket_def on_disconnect_def collab_join_def
       collab_leave_def collab_highlight_def chat_join_def join_room_def leave_room_def
       distinct_removeAll Let_def split: option.splits if_splits prod.splits\<close>)

lemma run_rooms_distinct:
  assumes "\<forall>r. distinct (rooms st r)" "run e evs (st, d) = ((st', d'), trace)"
  shows "distinct (rooms st' r)"
  using assms
proof (induction evs arbitrary: st d trace)
  case Nil
  then show ?case by simp
next
  case (Cons ev evs)
  obtain st1 d1 acts where s: "serve e ev (st, d) = ((st1, d1), acts)"
    by (metis prod.collapse)
  obtain s2 rest where r: "run e evs (st1, d1) = (s2, rest)"
    by (metis prod.collapse)
  from Cons.prems(2) s r have "s2 = (st', d')" by simp
  with r have r': "run e evs (st1, d1) = ((st', d'), rest)" by simp
  have "\<forall>r. distinct (rooms st1 r)"
    using serve_rooms_distinct [OF Cons.prems(1) s] by blast
  from Cons.IH [OF this r'] show ?case .
qed

lemma reachable_rooms_distinct:
  assumes "run e evs (empty_io, d) = ((st', d'), trace)"
  shows "distinct (rooms st' r)"
  using run_rooms_distinct [OF _ assms] by (simp add: empty_io_def)

lemma notifications_emit_nothing:
  "concat (map (\<lambda>a. case a of Emit tg ev' p \<Rightarrow> if ev' = ev then recipients st tg else []
                             | _ \<Rightarrow> []) (sendChatNotifications e d rt rid uid)) = []"
  "filter (\<lambda>a. case a of Emit tg ev' p \<Rightarrow> ev' = ev | _ \<Rightarrow> False)
     (sendChatNotifications e d rt rid uid) = []"
  by (auto simp: sendChatNotifications_def filter_empty_conv Let_def split: option.splits)

text \<open>
  The claim as stated fails: the handler does not ask whether the sender has joined
  the room. Ann's laptop is connected and is not in the chat room of household \<open>h1\<close>;
  its message passes validation, is stored and is broadcast to the room, the two
  sockets in the room get one copy each, and the laptop, the sender, gets none.
\<close>

theorem sender_outside_room_gets_no_echo:
  "map sk_id (sockets chat_io) = [''s1'', ''s2'', ''s3'']
   \<and> sk_id laptop = ''s2''
   \<and> rooms chat_io ''chat:household:h1'' = [''s1'', ''s3'']
   \<and> (case chat_message quiet_env laptop home_chat chat_io empty_db of (d', acts) \<Rightarrow>
        map c_message (chat_messages d') = [''hello'']
        \<and> map (\<lambda>a. case a of Emit tg ev p \<Rightarrow> (tg, ev) | _ \<Rightarrow> (ToSocket [], []))
             (emissions ''chat:message'' acts) = [(ToRoom ''chat:household:h1'', ''chat:message'')]
        \<and> copies chat_io ''chat:message'' ''s1'' acts = 1
        \<and> copies chat_io ''chat:message'' ''s3'' acts = 1
        \<and> copies chat_io ''chat:message'' ''s2'' acts = 0)"
  by (simp add: chat_message_def chat_row_of_def message_data_def home_chat_def truthy_def
      quiet_env_def ascii_trim_def ascii_space_def empty_db_def chat_io_def phone_def
      laptop_def tablet_def ann_def bob_def chat_room_def copies_def emissions_def
      recipients_def sendChatNotifications_def Let_def)

text \<open>
  Claim C6, as the code has it. A chat message whose trimmed text is not empty, sent
  in a server state whose room lists no socket twice. When the insert succeeds, the
  row (the generated id, the room, the sender's user id, the trimmed text, the parent
  and the time) is stored first and one \<^verbatim>\<open>chat:message\<close> event carrying that id, text
  and time and the sender's names is emitted next, to the room: every socket in the
  room gets exactly one copy and no other socket gets any, so the sender's own socket
  gets exactly one copy when it is in the room and none when it is not. When the
  insert fails, nothing is stored, no \<^verbatim>\<open>chat:message\<close> is emitted and the sender gets
  the error \<^verbatim>\<open>Failed to send message\<close>.
\<close>

theorem chat_message_persists_then_echoes:
  assumes ok: "message data = Some text" "text \<noteq> []" "trim e text \<noteq> []"
    and room: "distinct (rooms st (''chat:'' @ roomType data @ '':'' @ roomId data))"
  shows "(\<not> throws e ChatInsert \<longrightarrow>
      (let row = \<lparr>c_id = fresh e ChatInsert, c_room_type = roomType data,
                  c_room_id = roomId data, c_user_id = su_id (sk_user sk),
                  c_message = trim e text, c_parent_message_id = parentMessageId data,
                  c_created_at = clock st\<rparr>;
           roomName = ''chat:'' @ roomType data @ '':'' @ roomId data;
           broadcast = Emit (ToRoom roomName) ''chat:message''
             (JObj [(''id'', JStr (fresh e ChatInsert)), (''roomType'', JStr (roomType data)),
                    (''roomId'', JStr (roomId data)),
                    (''user'', JObj [(''id'', JStr (su_id (sk_user sk))),
                                     (''username'', JStr (su_username (sk_user sk))),
                                     (''firstName'', JStr (su_firstName (sk_user sk))),
                                     (''lastName'', JStr (su_lastName (sk_user sk)))]),
                    (''message'', JStr (trim e text)),
                    (''parentMessageId'',
                       (case parentMessageId data of None \<Rightarrow> JUndefined
                        | Some parent \<Rightarrow> JStr parent)),
                    (''timestamp'', JTime (clock st))])
       in case chat_message e sk data st d of (d', acts) \<Rightarrow>
         d' = d\<lparr>chat_messages := chat_messages d @ [row]\<rparr>
         \<and> take 2 acts = [Persist row, broadcast]
         \<and> emissions ''chat:message'' acts = [broadcast]
         \<and> (\<forall>sid. copies st ''chat:message'' sid acts =
               (if sid \<in> set (rooms st roomName) then 1 else 0))
         \<and> copies st ''chat:message'' (sk_id sk) acts =
               (if sk_id sk \<in> set (rooms st roomName) then 1 else 0)))
   \<and> (throws e ChatInsert \<longrightarrow>
        chat_message e sk data st d
          = (d, [Emit (ToSocket (sk_id sk)) ''error''
                   (JObj [(''message'', JStr ''Failed to send message'')])])
        \<and> emissions ''chat:message'' (snd (chat_message e sk data st d)) = []
        \<and> (\<forall>sid. copies st ''chat:message'' sid (snd (chat_message e sk data st d)) = 0))"
  using ok room
  by (auto simp: chat_message_def chat_row_of_def message_data_def person_def opt_str_def
      chat_room_def truthy_def Let_def emissions_def copies_def notifications_emit_nothing
      recipients_def distinct_count error_event_def)

theorem chat_message_persists_then_echoes_witness:
  "message home_chat = Some '' hello '' \<and> trim quiet_env '' hello '' = ''hello''
   \<and> distinct (rooms chat_io ''chat:household:h1'')
   \<and> \<not> throws quiet_env ChatInsert
   \<and> sk_id phone \<in> set (rooms chat_io ''chat:household:h1'')
   \<and> (case chat_message quiet_env phone home_chat chat_io empty_db of (d', acts) \<Rightarrow>
        map c_message (chat_messages d') = [''hello'']
        \<and> map c_created_at (chat_messages d') = [40]
        \<and> copies chat_io ''chat:message'' ''s1'' acts = 1
        \<and> copies chat_io ''chat:message'' ''s3'' acts = 1
        \<and> copies chat_io ''chat:message'' ''s2'' acts = 0)
   \<and> throws (quiet_env\<lparr>throws := (\<lambda>c. c = ChatInsert)\<rparr>) ChatInsert
   \<and> chat_message (quiet_env\<lparr>throws := (\<lambda>c. c = ChatInsert)\<rparr>) phone home_chat chat_io empty_db
       = (empty_db, [Emit (ToSocket ''s1'') ''error''
                       (JObj [(''message'', JStr ''Failed to send message'')])])"
proof -
  let ?bad = "quiet_env\<lparr>throws := (\<lambda>c. c = ChatInsert)\<rparr>"
  have msg: "message home_chat = Some '' hello ''"
    by (simp add: home_chat_def)
  have tr: "trim quiet_env '' hello '' = ''hello''" "trim ?bad '' hello '' = ''hello''"
    by (simp_all add: quiet_env_def ascii_trim_def ascii_space_def)
  have ne: "'' hello '' \<noteq> []" "trim quiet_env '' hello '' \<noteq> []" "trim ?bad '' hello '' \<noteq> []"
    by (simp_all add: tr)
  have rm: "''chat:'' @ roomType home_chat @ '':'' @ roomId home_chat = ''chat:household:h1''"
    by (simp add: home_chat_def)
  have r: "rooms chat_io ''chat:household:h1'' = [''s1'', ''s3'']"
    by (simp add: chat_io_def)
  have dr: "distinct (rooms chat_io (''chat:'' @ roomType home_chat @ '':'' @ roomId home_chat))"
    by (simp only: rm r) simp
  have dr': "distinct (rooms chat_io ''chat:household:h1'')"
    by (simp add: r)
  have q: "\<not> throws quiet_env ChatInsert" "throws ?bad ChatInsert"
    by (simp_all add: quiet_env_def)
  have sk: "sk_id phone = ''s1''"
    by (simp add: phone_def)
  have inroom: "sk_id phone \<in> set (rooms chat_io ''chat:household:h1'')"
    by (simp add: sk r)
  obtain d' acts where c: "chat_message quiet_env phone home_chat chat_io empty_db = (d', acts)"
    by (metis prod.collapse)
  from chat_message_persists_then_echoes
         [OF msg ne(1) ne(2) dr, where sk = phone and d = empty_db] q(1) c
  have good: "chat_messages d' = chat_messages empty_db @
        [\<lparr>c_id = fresh quiet_env ChatInsert, c_room_type = roomType home_chat,
          c_room_id = roomId home_chat, c_user_id = su_id (sk_user phone),
          c_message = ''hello'', c_parent_message_id = parentMessageId home_chat,
          c_created_at = clock chat_io\<rparr>]"
    "\<forall>sid. copies chat_io ''chat:message'' sid acts =
        (if sid \<in> set (rooms chat_io ''chat:household:h1'') then 1 else 0)"
    by (simp_all add: tr Let_def home_chat_def)
  have m: "map c_message (chat_messages d') = [''hello'']"
    "map c_created_at (chat_messages d') = [40]"
    by (simp_all add: good(1) empty_db_def chat_io_def)
  have cs: "copies chat_io ''chat:message'' ''s1'' acts = 1"
    "copies chat_io ''chat:message'' ''s3'' acts = 1"
    "copies chat_io ''chat:message'' ''s2'' acts = 0"
    by (simp_all add: good(2) r)
  from chat_message_persists_then_echoes
         [OF msg ne(1) ne(3) dr, where sk = phone and d = empty_db] q(2)
  have bad: "chat_message ?bad phone home_chat chat_io empty_db
       = (empty_db, [Emit (ToSocket ''s1'') ''error''
                       (JObj [(''message'', JStr ''Failed to send message'')])])"
    by (simp add: sk)
  have out: "case chat_message quiet_env phone home_chat chat_io empty_db of (d', acts) \<Rightarrow>
        map c_message (chat_messages d') = [''hello'']
        \<and> map c_created_at (chat_messages d') = [40]
        \<and> copies chat_io ''chat:message'' ''s1'' acts = 1
        \<and> copies chat_io ''chat:message'' ''s3'' acts = 1
        \<and> copies chat_io ''chat:message'' ''s2'' acts = 0"
    unfolding c using m cs by simp
  from msg tr(1) dr' q(1) inroom out q(2) bad show ?thesis
    by (intro conjI)
qed

section \<open>Highlights expire after thirty seconds\<close>

lemma timers_fold_join:
  "timers (fold (\<lambda>h. join_room (f h) sid) hs st) = timers st"
  by (induction hs arbitrary: st) (auto simp: join_room_def)

text \<open>No event clears a timer, a disconnection included; only time reaching it does.\<close>

lemma serve_keeps_timer:
  assumes "x \<in> set (timers st)" "before (tm_due x) ev" "serve e ev (st, d) = ((st', d'), acts)"
  shows "x \<in> set (timers st')"
  using assms
  by (cases ev)
     (auto simp: serve_def on_socket_def on_connection_def on_disconnect_def collab_join_def
        collab_leave_def collab_highlight_def chat_join_def advance_def before_def
        timers_fold_join Let_def join_room_def leave_room_def
        split: option.splits if_splits prod.splits)

lemma run_keeps_timer:
  assumes "x \<in> set (timers st)" "\<forall>ev \<in> set evs. before (tm_due x) ev"
    and "run e evs (st, d) = ((st', d'), trace)"
  shows "x \<in> set (timers st')"
  using assms
proof (induction evs arbitrary: st d trace)
  case Nil
  then show ?case by simp
next
  case (Cons ev evs)
  obtain st1 d1 acts where s: "serve e ev (st, d) = ((st1, d1), acts)"
    by (metis prod.collapse)
  obtain s2 rest where r: "run e evs (st1, d1) = (s2, rest)"
    by (metis prod.collapse)
  from Cons.prems(3) s r have "s2 = (st', d')" by simp
  with r have r': "run e evs (st1, d1) = ((st', d'), rest)" by simp
  have "x \<in> set (timers st1)"
    using serve_keeps_timer [OF Cons.prems(1) _ s] Cons.prems(2) by simp
  from Cons.IH [OF this _ r'] Cons.prems(2) show ?case by simp
qed

text \<open>
  Claim C8, as the code has it. A highlight made at time \<open>T\<close> sets a timer due at
  \<open>T + 30000\<close>. Whatever the server does before that time, the creating socket
  disconnecting included, the timer is still pending, and when the clock reaches
  \<open>T + 30000\<close> it emits \<^verbatim>\<open>collab:highlight-remove\<close> for the item to the sockets that are in
  the room then, except the creating socket.
\<close>

theorem highlight_removed_after_30s:
  assumes "\<forall>ev \<in> set evs. before (clock st + 30000) ev"
  shows "(let st' = fst (fst (run e evs (fst (collab_highlight sk data st), d))) in
           fire (highlight_timer sk data st) \<in> set (snd (advance (clock st + 30000) st'))
           \<and> recipients st' (ToRoomExcept (collab_room data) (sk_id sk))
               = filter (\<lambda>sid. sid \<noteq> sk_id sk) (rooms st' (collab_room data)))
     \<and> fire (highlight_timer sk data st) =
         Emit (ToRoomExcept (collab_room data) (sk_id sk)) ''collab:highlight-remove''
           (JObj [(''userId'', JStr (su_id (sk_user sk))), (''itemId'', opt_str (itemId data))])"
proof -
  let ?x = "highlight_timer sk data st"
  let ?r = "run e evs (fst (collab_highlight sk data st), d)"
  have run: "?r = ((fst (fst ?r), snd (fst ?r)), snd ?r)"
    by simp
  have "?x \<in> set (timers (fst (collab_highlight sk data st)))"
    by (simp add: collab_highlight_def highlight_timer_def Let_def)
  moreover have "tm_due ?x = clock st + 30000"
    by (simp add: highlight_timer_def)
  ultimately have "?x \<in> set (timers (fst (fst ?r)))"
    using run_keeps_timer [OF _ _ run, of ?x] assms by simp
  then have "fire ?x \<in> set (snd (advance (clock st + 30000) (fst (fst ?r))))"
    by (simp add: advance_def highlight_timer_def)
  then show ?thesis
    by (simp add: fire_def highlight_timer_def recipients_def Let_def)
qed

theorem highlight_removed_after_30s_witness:
  "before (clock collab_io + 30000) (Disconnect ''s1'')
   \<and> before (clock collab_io + 30000) (Advance 10000)
   \<and> connected (fst (fst (run quiet_env [Disconnect ''s1'', Advance 10000]
        (fst (collab_highlight phone budget_doc collab_io), empty_db)))) ''s1'' = None
   \<and> fire (highlight_timer phone budget_doc collab_io)
       \<in> set (snd (advance 30000 (fst (fst (run quiet_env [Disconnect ''s1'', Advance 10000]
            (fst (collab_highlight phone budget_doc collab_io), empty_db))))))
   \<and> recipients (fst (fst (run quiet_env [Disconnect ''s1'', Advance 10000]
        (fst (collab_highlight phone budget_doc collab_io), empty_db))))
        (ToRoomExcept ''collab:budget:b1'' ''s1'') = [''s3'']"
proof -
  let ?evs = "[Disconnect ''s1'', Advance 10000]"
  let ?st' = "fst (fst (run quiet_env ?evs
      (fst (collab_highlight phone budget_doc collab_io), empty_db)))"
  have b: "before (clock collab_io + 30000) (Disconnect ''s1'')"
    "before (clock collab_io + 30000) (Advance 10000)"
    by (simp_all add: before_def collab_io_def)
  then have hyp: "\<forall>ev \<in> set ?evs. before (clock collab_io + 30000) ev"
    by simp
  have c0: "clock collab_io + 30000 = 30000"
    by (simp add: collab_io_def)
  from highlight_removed_after_30s
         [OF hyp, where e = quiet_env and sk = phone and data = budget_doc and d = empty_db,
          unfolded Let_def c0]
  have f: "fire (highlight_timer phone budget_doc collab_io) \<in> set (snd (advance 30000 ?st'))"
    by blast
  have st: "rooms ?st' ''collab:budget:b1'' = [''s3''] \<and> connected ?st' ''s1'' = None"
    by (simp add: handler_defs socket_defs Let_def)
  then have r: "recipients ?st' (ToRoomExcept ''collab:budget:b1'' ''s1'') = [''s3'']"
    by (simp add: recipients_def)
  from st have c: "connected ?st' ''s1'' = None" ..
  from b c f r show ?thesis
    by (intro conjI)
qed

text \<open>
  The claim as stated fails: the creating socket is still in the room thirty seconds
  later and does not get the removal, while the other socket in the room does.
\<close>

theorem highlight_removal_skips_creator:
  "(case run quiet_env [CollabHighlight ''s1'' budget_doc, Advance 30000] (collab_io, empty_db) of
      ((st, d), trace) \<Rightarrow>
        rooms st ''collab:budget:b1'' = [''s1'', ''s3'']
        \<and> last trace = [Emit (ToRoomExcept ''collab:budget:b1'' ''s1'') ''collab:highlight-remove''
                           (JObj [(''userId'', JStr ''u1''), (''itemId'', JStr ''row7'')])]
        \<and> copies st ''collab:highlight-remove'' ''s3'' (last trace) = 1
        \<and> copies st ''collab:highlight-remove'' ''s1'' (last trace) = 0)"
  by (simp add: handler_defs socket_defs copies_def recipients_def Let_def)

end
